theory Spec2Isabelle
  imports Main "HOL-Library.AList" "HOL-Library.Sublist"
begin

section \<open>Strings of the Go runtime\<close>

text \<open>
  A Go \<open>string\<close> is a sequence of bytes; it is modelled as a \<open>string\<close> (a list of 8-bit
  characters). \<open>strings.TrimSpace\<close> removes the leading and the trailing runes that
  \<open>unicode.IsSpace\<close> accepts; \<open>spaceRunes\<close> lists their UTF-8 encodings (U+0009..U+000D,
  U+0020, U+0085, U+00A0, U+1680, U+2000..U+200A, U+2028, U+2029, U+202F, U+205F, U+3000).
\<close>

definition spaceRunes :: "string list" where
  "spaceRunes =
     [[CHR 0x09], [CHR 0x0A], [CHR 0x0B], [CHR 0x0C], [CHR 0x0D], [CHR 0x20],
      [CHR 0xC2, CHR 0x85], [CHR 0xC2, CHR 0xA0],
      [CHR 0xE1, CHR 0x9A, CHR 0x80],
      [CHR 0xE2, CHR 0x80, CHR 0x80], [CHR 0xE2, CHR 0x80, CHR 0x81],
      [CHR 0xE2, CHR 0x80, CHR 0x82], [CHR 0xE2, CHR 0x80, CHR 0x83],
      [CHR 0xE2, CHR 0x80, CHR 0x84], [CHR 0xE2, CHR 0x80, CHR 0x85],
      [CHR 0xE2, CHR 0x80, CHR 0x86], [CHR 0xE2, CHR 0x80, CHR 0x87],
      [CHR 0xE2, CHR 0x80, CHR 0x88], [CHR 0xE2, CHR 0x80, CHR 0x89],
      [CHR 0xE2, CHR 0x80, CHR 0x8A],
      [CHR 0xE2, CHR 0x80, CHR 0xA8], [CHR 0xE2, CHR 0x80, CHR 0xA9],
      [CHR 0xE2, CHR 0x80, CHR 0xAF], [CHR 0xE2, CHR 0x81, CHR 0x9F],
      [CHR 0xE3, CHR 0x80, CHR 0x80]]"

definition isSpaceRune :: "string \<Rightarrow> bool" where
  "isSpaceRune r = (r \<in> set spaceRunes)"

text \<open>
  \<open>trimLeading False\<close> strips white-space runes from the front of a string.
  \<open>trimLeading True\<close> does the same on a reversed string, where the bytes of each rune
  arrive last byte first; it serves for the trailing end.
\<close>

fun trimLeading :: "bool \<Rightarrow> string \<Rightarrow> string" where
  "trimLeading bw [] = []"
| "trimLeading bw (c # cs) =
     (if isSpaceRune [c] then trimLeading bw cs
      else if isSpaceRune (if bw then rev (take 2 (c # cs)) else take 2 (c # cs))
        then trimLeading bw (drop 1 cs)
      else if isSpaceRune (if bw then rev (take 3 (c # cs)) else take 3 (c # cs))
        then trimLeading bw (drop 2 cs)
      else c # cs)"

definition TrimSpace :: "string \<Rightarrow> string" where
  "TrimSpace s = rev (trimLeading True (rev (trimLeading False s)))"

definition HasPrefix :: "string \<Rightarrow> string \<Rightarrow> bool" where
  "HasPrefix s p = (take (length p) s = p)"

text \<open>
  \<open>strings.ToLower\<close>: the letters A..Z are mapped to a..z. Go also folds upper-case
  letters outside ASCII through its Unicode tables; those bytes are left as they are here.
\<close>

definition toLowerByte :: "char \<Rightarrow> char" where
  "toLowerByte c =
     (if (65::nat) \<le> of_char c \<and> (of_char c :: nat) \<le> 90
      then char_of ((of_char c :: nat) + 32) else c)"

definition ToLower :: "string \<Rightarrow> string" where
  "ToLower s = map toLowerByte s"

text \<open>\<open>strings.Index(s, ";")\<close> for a one-byte separator: the first position, if any.\<close>

fun IndexByte :: "string \<Rightarrow> char \<Rightarrow> nat option" where
  "IndexByte [] c = None"
| "IndexByte (x # xs) c =
     (if x = c then Some 0 else map_option Suc (IndexByte xs c))"

text \<open>The decimal rendering of an integer, as \<open>%d\<close> prints it.\<close>

fun digits :: "nat \<Rightarrow> nat \<Rightarrow> string" where
  "digits 0 n = []"
| "digits (Suc fuel) n =
     (if n < 10 then [char_of (48 + n)]
      else digits fuel (n div 10) @ [char_of (48 + n mod 10)])"

definition itoa :: "int \<Rightarrow> string" where
  "itoa i = (if i < 0 then CHR ''-'' # digits (Suc (nat (- i))) (nat (- i))
             else digits (Suc (nat i)) (nat i))"

section \<open>Errors\<close>

text \<open>
  Every error value the package creates or hands on. \<open>ErrParseXML\<close> wraps the tokenizer's
  error, \<open>ErrInvalidMediaURL\<close> the URL parser's; \<open>ErrExternal\<close> stands for an error made
  outside the package (transport, hooks). \<open>ErrUnsupportedVersion\<close> is never returned: its
  message is used in a failure reason.
\<close>

datatype error =
    ErrEmptyXML
  | ErrParseXML error
  | ErrUnexpectedClosingTag string
  | ErrInvalidRoot
  | ErrMissingVersion
  | ErrUnsupportedVersion
  | ErrCatalogMissingVAST
  | ErrMediaURLEmpty
  | ErrInvalidMediaURL string error
  | ErrMissingSchemeOrHost string
  | ErrUnsupportedScheme string
  | ErrExternal string

text \<open>
  The message of an error (\<open>err.Error()\<close>). The verb \<open>%q\<close> is rendered as the text between
  double quotes; the escaping it applies to special bytes is not modelled.
\<close>

definition quoted :: "string \<Rightarrow> string" where
  "quoted s = [CHR 0x22] @ s @ [CHR 0x22]"

fun Error :: "error \<Rightarrow> string" where
  "Error ErrEmptyXML = ''validator: empty XML document''"
| "Error (ErrParseXML e) = ''validator: parse XML: '' @ Error e"
| "Error (ErrUnexpectedClosingTag n) = ''validator: unexpected closing tag '' @ quoted n"
| "Error ErrInvalidRoot = ''Root element must be VAST''"
| "Error ErrMissingVersion = ''Missing VAST version attribute''"
| "Error ErrUnsupportedVersion = ''Unsupported VAST version''"
| "Error ErrCatalogMissingVAST = ''validator: catalog missing VAST spec''"
| "Error ErrMediaURLEmpty = ''media URL is empty''"
| "Error (ErrInvalidMediaURL raw e) = ''invalid media URL '' @ quoted raw @ '': '' @ Error e"
| "Error (ErrMissingSchemeOrHost raw) =
     ''invalid media URL '' @ quoted raw @ '': missing scheme or host''"
| "Error (ErrUnsupportedScheme s) = ''unsupported media URL scheme '' @ quoted s"
| "Error (ErrExternal m) = m"

section \<open>The schema catalog (catalog.go)\<close>

type_synonym Version = string

record AttributeSpec =
  Name :: string
  Versions :: "Version list"
  Required :: bool
  AllowEmpty :: bool

record ChildSpec =
  Name :: string
  Versions :: "Version list"
  Optional :: bool
  Multiple :: bool

text \<open>
  The maps of a \<open>NodeSpec\<close> and of a \<open>Catalog\<close> hold pointers; every entry is taken to be
  a non-nil pointer, as in the built-in catalog. \<open>Attributes\<close> is ranged over by the
  validation of attributes, in an order Go does not fix: it is an association list read
  with \<open>map_of\<close>, and the order of the list is the order of that iteration.
\<close>

record NodeSpec =
  Name :: string
  Versions :: "Version list"
  Attributes :: "(string \<times> AttributeSpec) list"
  Children :: "string \<rightharpoonup> ChildSpec"
  AllowUnknownChildren :: bool

record Catalog =
  Nodes :: "string \<rightharpoonup> NodeSpec"

definition node :: "Catalog \<Rightarrow> string \<Rightarrow> NodeSpec option" where
  "node c name = Nodes c name"

definition supports :: "NodeSpec \<Rightarrow> Version \<Rightarrow> bool" where
  "supports spec version = (version \<in> set (NodeSpec.Versions spec))"

definition attribute :: "NodeSpec option \<Rightarrow> string \<Rightarrow> AttributeSpec option" where
  "attribute spec name =
     (case spec of None \<Rightarrow> None | Some s \<Rightarrow> map_of (Attributes s) name)"

definition child :: "NodeSpec option \<Rightarrow> string \<Rightarrow> ChildSpec option" where
  "child spec name = (case spec of None \<Rightarrow> None | Some s \<Rightarrow> NodeSpec.Children s name)"

definition childSupports :: "ChildSpec \<Rightarrow> Version \<Rightarrow> bool" where
  "childSupports spec version = (version \<in> set (ChildSpec.Versions spec))"

definition attributeSupports :: "AttributeSpec \<Rightarrow> Version \<Rightarrow> bool" where
  "attributeSupports spec version = (version \<in> set (AttributeSpec.Versions spec))"

section \<open>The tree parser (parser.go)\<close>

record xml_Name =
  Space :: string
  Local :: string

record xml_Attr =
  Name :: xml_Name
  Value :: string

datatype genericNode =
  GenericNode (Name: xml_Name) (Attrs: "xml_Attr list") (Children: "genericNode list")
    (Content: string)

definition localName :: "genericNode \<Rightarrow> string" where
  "localName n = Local (genericNode.Name n)"

text \<open>The loop of \<open>attrValue\<close> returns at the first attribute whose local name matches.\<close>

fun attrValueIn :: "xml_Attr list \<Rightarrow> string \<Rightarrow> string option" where
  "attrValueIn [] name = None"
| "attrValueIn (attr # rest) name =
     (if Local (xml_Attr.Name attr) = name then Some (Value attr) else attrValueIn rest name)"

definition attrValue :: "genericNode \<Rightarrow> string \<Rightarrow> string option" where
  "attrValue n name = attrValueIn (Attrs n) name"

text \<open>
  \<open>encoding/xml\<close> is outside the repository. A decoder run is what the successive calls of
  \<open>decoder.Token()\<close> return: a list of tokens, closed by \<open>io.EOF\<close> (\<open>None\<close>) or by an
  error. The decoder is a parameter of the parser.
\<close>

datatype xml_Token =
    StartElement xml_Name "xml_Attr list"
  | EndElement xml_Name
  | CharData string
  | Comment string
  | ProcInst string string
  | Directive string

type_synonym xml_Decoder = "string \<Rightarrow> xml_Token list \<times> error option"

text \<open>
  \<open>buildNodeTree\<close> keeps a stack of pointers to the open nodes and a pointer to the root,
  and links a node into its parent when the node starts. Here the stack holds the open
  nodes themselves, innermost first, each with the children it has so far; a node is
  put into its parent when it is popped, or at the end of the input if it is still open.
  Sibling elements do not overlap, so the children come in the same order. The bottom of a
  non-empty stack is the node the Go code holds in \<open>root\<close>.
\<close>

record builder =
  stack :: "genericNode list"
  root :: "genericNode option"

definition appendChild :: "genericNode \<Rightarrow> genericNode \<Rightarrow> genericNode" where
  "appendChild parent n =
     GenericNode (genericNode.Name parent) (Attrs parent) (genericNode.Children parent @ [n])
       (Content parent)"

definition appendContent :: "genericNode \<Rightarrow> string \<Rightarrow> genericNode" where
  "appendContent current trimmed =
     GenericNode (genericNode.Name current) (Attrs current) (genericNode.Children current)
       ((if Content current \<noteq> [] then Content current @ '' '' else Content current) @ trimmed)"

fun tokenStep :: "xml_Token \<Rightarrow> builder \<Rightarrow> error + builder" where
  "tokenStep (StartElement name attrs) b =
     Inr (b\<lparr>stack := GenericNode name attrs [] [] # stack b\<rparr>)"
| "tokenStep (EndElement name) b =
     (case stack b of
        [] \<Rightarrow> Inl (ErrUnexpectedClosingTag (Local name))
      | [n] \<Rightarrow> Inr (b\<lparr>stack := [], root := Some n\<rparr>)
      | n # parent # rest \<Rightarrow> Inr (b\<lparr>stack := appendChild parent n # rest\<rparr>))"
| "tokenStep (CharData s) b =
     (case stack b of
        [] \<Rightarrow> Inr b
      | current # rest \<Rightarrow>
          (if TrimSpace s = [] then Inr b
           else Inr (b\<lparr>stack := appendContent current (TrimSpace s) # rest\<rparr>)))"
| "tokenStep (Comment s) b = Inr b"
| "tokenStep (ProcInst t s) b = Inr b"
| "tokenStep (Directive s) b = Inr b"

fun tokenLoop :: "xml_Token list \<Rightarrow> builder \<Rightarrow> error + builder" where
  "tokenLoop [] b = Inr b"
| "tokenLoop (t # ts) b =
     (case tokenStep t b of Inl e \<Rightarrow> Inl e | Inr b' \<Rightarrow> tokenLoop ts b')"

fun closeOpen :: "genericNode list \<Rightarrow> genericNode option" where
  "closeOpen [] = None"
| "closeOpen [n] = Some n"
| "closeOpen (n # parent # rest) = closeOpen (appendChild parent n # rest)"

definition rootOf :: "builder \<Rightarrow> genericNode option" where
  "rootOf b = (case stack b of [] \<Rightarrow> root b | _ \<Rightarrow> closeOpen (stack b))"

definition buildNodeTree :: "xml_Decoder \<Rightarrow> string \<Rightarrow> error + genericNode" where
  "buildNodeTree decoder raw =
     (case tokenLoop (fst (decoder raw)) \<lparr>stack = [], root = None\<rparr> of
        Inl e \<Rightarrow> Inl e
      | Inr b \<Rightarrow>
          (case snd (decoder raw) of
             Some err \<Rightarrow> Inl (ErrParseXML err)
           | None \<Rightarrow>
               (case rootOf b of None \<Rightarrow> Inl ErrEmptyXML | Some r \<Rightarrow> Inr r)))"

section \<open>Result types and summaries (results file)\<close>

type_synonym ResultStatus = string

definition StatusPass :: ResultStatus where "StatusPass = ''pass''"
definition StatusFail :: ResultStatus where "StatusFail = ''fail''"
definition StatusInfo :: ResultStatus where "StatusInfo = ''info''"

text \<open>
  The declarations of \<open>AttributeResult\<close> and \<open>NodeAnalysisResult\<close> among the sources have a
  single field \<open>Reason\<close>, which \<open>summarizeCategories\<close> reads. The validation engine, the
  built-in hook and the tests write a list \<open>Reasons\<close>, whose declaration is not among the
  sources. The records carry both fields, so that each function is embedded as written.
\<close>

record AttributeResult =
  Name :: string
  VersionSupport :: "Version list"
  Status :: ResultStatus
  Reason :: string
  Reasons :: "string list"

record NodeAnalysisResult =
  Category :: string
  Status :: ResultStatus
  Reason :: string
  Reasons :: "string list"
  Attributes :: "AttributeResult list"

definition addAttribute :: "NodeAnalysisResult \<Rightarrow> AttributeResult \<Rightarrow> NodeAnalysisResult" where
  "addAttribute nar result =
     nar\<lparr>NodeAnalysisResult.Attributes := NodeAnalysisResult.Attributes nar @ [result]\<rparr>"

text \<open>
  Modelled from the spec: the method \<open>addReason\<close> of \<open>AttributeResult\<close>, called by
  \<open>validateAttributes\<close>, is not among the sources. The spec gives an attribute result a
  list of reasons; the method appends to it.
\<close>

definition addReason :: "AttributeResult \<Rightarrow> string \<Rightarrow> AttributeResult" where
  "addReason r msg = r\<lparr>AttributeResult.Reasons := AttributeResult.Reasons r @ [msg]\<rparr>"

text \<open>
  \<open>Analyses\<close> is a Go map from category to a pointer to the bucket. \<open>summarizeCategories\<close>
  ranges over it, so it is an association list (read with \<open>map_of\<close>, written with
  \<open>AList.update\<close>, which keeps the keys distinct); a bucket is held by value, and a write
  through its pointer is \<open>storeAnalysis\<close>.
\<close>

datatype NodeResult =
  NodeResult (Node: string) (VersionSupport: "Version list")
    (Analyses: "(string \<times> NodeAnalysisResult) list") (Children: "NodeResult list")

definition addAnalysis :: "NodeResult \<Rightarrow> string \<Rightarrow> NodeResult \<times> NodeAnalysisResult" where
  "addAnalysis nr category =
     (case map_of (Analyses nr) category of
        None \<Rightarrow>
          (let analysis = \<lparr>Category = category, Status = StatusPass, Reason = [], Reasons = [],
                            Attributes = []\<rparr>
           in (NodeResult (NodeResult.Node nr) (NodeResult.VersionSupport nr)
                 (AList.update category analysis (Analyses nr)) (NodeResult.Children nr),
               analysis))
      | Some analysis \<Rightarrow> (nr, analysis))"

definition storeAnalysis :: "NodeResult \<Rightarrow> string \<Rightarrow> NodeAnalysisResult \<Rightarrow> NodeResult" where
  "storeAnalysis nr category analysis =
     NodeResult (NodeResult.Node nr) (NodeResult.VersionSupport nr)
       (AList.update category analysis (Analyses nr)) (NodeResult.Children nr)"

record CategorySummary =
  Category :: string
  TotalNodes :: int
  FailingNodes :: int
  Status :: ResultStatus
  Reasons :: "string list"

type_synonym summaries = "(string \<times> CategorySummary) list"

text \<open>The body of the loop over the analyses of one node.\<close>

definition visit :: "string \<times> NodeAnalysisResult \<Rightarrow> summaries \<Rightarrow> summaries" where
  "visit entry summaries =
     (let category = fst entry; analysis = snd entry;
          summary = (case map_of summaries category of
                       None \<Rightarrow> \<lparr>Category = category, TotalNodes = 0, FailingNodes = 0,
                                 Status = StatusPass, Reasons = []\<rparr>
                     | Some s \<Rightarrow> s);
          summary1 = summary\<lparr>TotalNodes := TotalNodes summary + 1\<rparr>;
          summary2 =
            (if NodeAnalysisResult.Status analysis = StatusFail
             then (let s = summary1\<lparr>FailingNodes := FailingNodes summary1 + 1,
                                     CategorySummary.Status := StatusFail\<rparr>
                   in if NodeAnalysisResult.Reason analysis \<noteq> []
                         \<and> length (CategorySummary.Reasons s) < 5
                      then s\<lparr>CategorySummary.Reasons :=
                               CategorySummary.Reasons s @ [NodeAnalysisResult.Reason analysis]\<rparr>
                      else s)
             else summary1)
      in AList.update category summary2 summaries)"

fun walk :: "NodeResult \<Rightarrow> summaries \<Rightarrow> summaries" where
  "walk (NodeResult n vs an ch) summaries =
     fold (\<lambda>c s. walk c s) ch (fold visit an summaries)"

text \<open>A nil root gives a nil map; a nil map and an empty map are both the empty list.\<close>

definition summarizeCategories :: "NodeResult option \<Rightarrow> summaries" where
  "summarizeCategories r = (case r of None \<Rightarrow> [] | Some n \<Rightarrow> walk n [])"

record ValidationResult =
  Version :: Version
  Root :: NodeResult
  Summaries :: summaries

section \<open>Hook registries (custom.go)\<close>

definition IABAnalysisCategory :: string where "IABAnalysisCategory = ''iab.analysis''"
definition CustomAnalysisCategory :: string where "CustomAnalysisCategory = ''custom.analysis''"

record NodeContext =
  Node :: "genericNode option"
  Version :: Version

definition Text :: "NodeContext \<Rightarrow> string" where
  "Text ctx = (case NodeContext.Node ctx of None \<Rightarrow> [] | Some n \<Rightarrow> TrimSpace (Content n))"

definition Attribute :: "NodeContext \<Rightarrow> string \<Rightarrow> string option" where
  "Attribute ctx name =
     (case NodeContext.Node ctx of None \<Rightarrow> None | Some n \<Rightarrow> attrValue n name)"

text \<open>
  A request carries its context, here the timeout it runs under, if any. The network is
  outside the program: a client is the function from a request to what \<open>client.Do\<close>
  returns for it.
\<close>

type_synonym Context = "int option"

record http_Request =
  Ctx :: Context
  Method :: string
  URL :: string
  Header :: "(string \<times> string) list"

record http_Response =
  StatusCode :: int
  Header :: "(string \<times> string) list"

type_synonym http_Client = "http_Request \<Rightarrow> error + http_Response"

type_synonym NodeValidatorFunc = "NodeContext \<Rightarrow> NodeAnalysisResult option"

type_synonym HTTPValidatorFunc =
  "Context \<Rightarrow> NodeContext \<Rightarrow> http_Client option \<Rightarrow> NodeAnalysisResult option \<times> error option"

text \<open>
  The two registries are package-level maps; they are passed and returned explicitly.
  A nil validator is \<open>None\<close>. The locks have no counterpart in a sequential model.
\<close>

definition RegisterCustomValidator ::
  "(string \<rightharpoonup> NodeValidatorFunc list) \<Rightarrow> string \<Rightarrow> NodeValidatorFunc option
     \<Rightarrow> (string \<rightharpoonup> NodeValidatorFunc list)" where
  "RegisterCustomValidator customValidators nodeName validator =
     (case validator of
        None \<Rightarrow> customValidators
      | Some v \<Rightarrow>
          (let key = ToLower nodeName
           in customValidators(key \<mapsto>
                (case customValidators key of None \<Rightarrow> [] | Some vs \<Rightarrow> vs) @ [v])))"

definition getCustomValidators ::
  "(string \<rightharpoonup> NodeValidatorFunc list) \<Rightarrow> string \<Rightarrow> NodeValidatorFunc list" where
  "getCustomValidators customValidators nodeName =
     (case customValidators (ToLower nodeName) of None \<Rightarrow> [] | Some vs \<Rightarrow> vs)"

definition RegisterHTTPValidator ::
  "(string \<rightharpoonup> HTTPValidatorFunc list) \<Rightarrow> string \<Rightarrow> HTTPValidatorFunc option
     \<Rightarrow> (string \<rightharpoonup> HTTPValidatorFunc list)" where
  "RegisterHTTPValidator store nodeName validator =
     (case validator of
        None \<Rightarrow> store
      | Some v \<Rightarrow>
          (let key = ToLower nodeName
           in store(key \<mapsto> (case store key of None \<Rightarrow> [] | Some vs \<Rightarrow> vs) @ [v])))"

definition getHTTPValidators ::
  "(string \<rightharpoonup> HTTPValidatorFunc list) \<Rightarrow> string \<Rightarrow> HTTPValidatorFunc list" where
  "getHTTPValidators store nodeName =
     (case store (ToLower nodeName) of None \<Rightarrow> [] | Some vs \<Rightarrow> vs)"

record HTTPValidationOptions =
  Client :: "http_Client option"
  Timeout :: int

section \<open>The asset probe (http_helpers.go and the built-in hook)\<close>

text \<open>
  \<open>net/url\<close>, \<open>net/http\<close> and \<open>encoding/xml\<close> are outside the repository; what the code
  uses of them is a parameter. Of a parsed URL the code reads the scheme and the host and
  hands the value back to \<open>String\<close>; \<open>Rest\<close> stands for its other fields.
\<close>

record url_URL =
  Scheme :: string
  Host :: string
  Rest :: string

record stdlib =
  xml_Decode :: xml_Decoder
  url_Parse :: "string \<Rightarrow> error + url_URL"
  url_String :: "url_URL \<Rightarrow> string"
  http_DefaultClient :: http_Client

definition clientOf :: "stdlib \<Rightarrow> HTTPValidationOptions \<Rightarrow> http_Client" where
  "clientOf lib opts = (case Client opts of None \<Rightarrow> http_DefaultClient lib | Some c \<Rightarrow> c)"

definition probeRangeHeader :: string where "probeRangeHeader = ''bytes=0-0''"

definition normalizeProbeURL :: "stdlib \<Rightarrow> string \<Rightarrow> error + string" where
  "normalizeProbeURL lib raw =
     (if TrimSpace raw = [] then Inl ErrMediaURLEmpty
      else
        (let trimmed = (if HasPrefix (TrimSpace raw) ''//'' then ''https:'' @ TrimSpace raw
                        else TrimSpace raw)
         in case url_Parse lib trimmed of
              Inl err \<Rightarrow> Inl (ErrInvalidMediaURL raw err)
            | Inr parsed \<Rightarrow>
                (if Scheme parsed = [] \<or> Host parsed = [] then Inl (ErrMissingSchemeOrHost raw)
                 else if Scheme parsed \<noteq> ''http'' \<and> Scheme parsed \<noteq> ''https''
                   then Inl (ErrUnsupportedScheme (Scheme parsed))
                 else Inr (url_String lib parsed))))"

text \<open>
  \<open>http.NewRequestWithContext\<close> parses its target and fails when that fails; the methods
  passed here are valid and the context is never nil.
\<close>

definition NewRequestWithContext ::
  "stdlib \<Rightarrow> Context \<Rightarrow> string \<Rightarrow> string \<Rightarrow> error + http_Request" where
  "NewRequestWithContext lib ctx method target =
     (case url_Parse lib target of
        Inl err \<Rightarrow> Inl err
      | Inr u \<Rightarrow> Inr \<lparr>Ctx = ctx, Method = method, URL = target, Header = []\<rparr>)"

definition headerSet :: "string \<times> string \<Rightarrow> http_Request \<Rightarrow> http_Request" where
  "headerSet kv req =
     req\<lparr>http_Request.Header := AList.update (fst kv) (snd kv) (http_Request.Header req)\<rparr>"

text \<open>
  Sending a request is the one effect of the probe. Each function below returns, next to
  its Go result, the requests it handed to the client, in order.
\<close>

definition doHTTPRequest ::
  "stdlib \<Rightarrow> Context \<Rightarrow> http_Client option \<Rightarrow> string \<Rightarrow> string \<Rightarrow> (string \<times> string) list
     \<Rightarrow> (error + http_Response) \<times> http_Request list" where
  "doHTTPRequest lib ctx client method target headers =
     (let client' = (case client of None \<Rightarrow> http_DefaultClient lib | Some c \<Rightarrow> c)
      in case NewRequestWithContext lib ctx method target of
           Inl err \<Rightarrow> (Inl err, [])
         | Inr req \<Rightarrow>
             (let req' = fold headerSet headers req
              in (case client' req' of Inl err \<Rightarrow> Inl err | Inr resp \<Rightarrow> Inr resp, [req'])))"

definition probeMediaURL ::
  "stdlib \<Rightarrow> Context \<Rightarrow> http_Client option \<Rightarrow> string
     \<Rightarrow> (error + http_Response) \<times> http_Request list" where
  "probeMediaURL lib ctx client rawURL =
     (case normalizeProbeURL lib rawURL of
        Inl err \<Rightarrow> (Inl err, [])
      | Inr normalized \<Rightarrow>
          (case doHTTPRequest lib ctx client ''HEAD'' normalized [] of
             (Inl err, sent) \<Rightarrow> (Inl err, sent)
           | (Inr resp, sent) \<Rightarrow>
               (if StatusCode resp \<noteq> 405 then (Inr resp, sent)
                else
                  (let again = doHTTPRequest lib ctx client ''GET'' normalized
                                 [(''Range'', probeRangeHeader)]
                   in (fst again, sent @ snd again)))))"

definition headerGet :: "(string \<times> string) list \<Rightarrow> string \<Rightarrow> string" where
  "headerGet h key = (case map_of h key of None \<Rightarrow> [] | Some v \<Rightarrow> v)"

definition failedCustom :: "string \<Rightarrow> NodeAnalysisResult" where
  "failedCustom reason =
     \<lparr>NodeAnalysisResult.Category = CustomAnalysisCategory,
      NodeAnalysisResult.Status = StatusFail, NodeAnalysisResult.Reason = [],
      NodeAnalysisResult.Reasons = [reason], NodeAnalysisResult.Attributes = []\<rparr>"

definition mediaFileHTTPValidator ::
  "stdlib \<Rightarrow> Context \<Rightarrow> NodeContext \<Rightarrow> http_Client option
     \<Rightarrow> (NodeAnalysisResult option \<times> error option) \<times> http_Request list" where
  "mediaFileHTTPValidator lib ctx nodeCtx client =
     (if Text nodeCtx = [] then ((Some (failedCustom ''media file URL is empty''), None), [])
      else
        (case probeMediaURL lib ctx client (Text nodeCtx) of
           (Inl err, sent) \<Rightarrow>
             ((Some (failedCustom (''media file request failed: '' @ Error err)), None), sent)
         | (Inr resp, sent) \<Rightarrow>
             (if StatusCode resp \<ge> 400
              then ((Some (failedCustom
                             (''media file responded with HTTP '' @ itoa (StatusCode resp))),
                     None), sent)
              else
                (let pass = \<lparr>NodeAnalysisResult.Category = CustomAnalysisCategory,
                             NodeAnalysisResult.Status = StatusPass,
                             NodeAnalysisResult.Reason = [], NodeAnalysisResult.Reasons = [],
                             NodeAnalysisResult.Attributes = []\<rparr>
                 in case Attribute nodeCtx ''type'' of
                      None \<Rightarrow> ((Some pass, None), sent)
                    | Some declared \<Rightarrow>
                        (let expected = ToLower (TrimSpace declared);
                             actual0 = ToLower (TrimSpace
                                         (headerGet (http_Response.Header resp) ''Content-Type''));
                             actual = (case IndexByte actual0 (CHR '';'') of
                                         None \<Rightarrow> actual0
                                       | Some idx \<Rightarrow> TrimSpace (take idx actual0))
                         in if expected \<noteq> [] \<and> actual \<noteq> [] \<and> actual \<noteq> expected
                            then ((Some (failedCustom
                                           (''content type mismatch: expected '' @ expected
                                              @ '', got '' @ actual)), None), sent)
                            else ((Some pass, None), sent))))))"

text \<open>The hook as it is registered: the engine sees the Go result only.\<close>

definition mediaFileHook :: "stdlib \<Rightarrow> HTTPValidatorFunc" where
  "mediaFileHook lib ctx nodeCtx client = fst (mediaFileHTTPValidator lib ctx nodeCtx client)"

definition registerBuiltInHTTPValidators ::
  "stdlib \<Rightarrow> (string \<rightharpoonup> HTTPValidatorFunc list) \<Rightarrow> (string \<rightharpoonup> HTTPValidatorFunc list)" where
  "registerBuiltInHTTPValidators lib store =
     RegisterHTTPValidator store ''MediaFile'' (Some (mediaFileHook lib))"

section \<open>The validation engine (validator.go)\<close>

record config =
  catalog :: Catalog
  runCustom :: bool
  runHTTP :: bool
  httpOptions :: HTTPValidationOptions

text \<open>
  The package-level variables a call reads: the built-in catalog (a table of
  catalog.go, taken as a parameter) and the two registries.
\<close>

record globals =
  defaultCatalog :: Catalog
  customValidators :: "string \<rightharpoonup> NodeValidatorFunc list"
  HTTPValidatorRegistry :: "string \<rightharpoonup> HTTPValidatorFunc list"

definition defaultConfig :: "globals \<Rightarrow> config" where
  "defaultConfig g =
     \<lparr>catalog = defaultCatalog g, runCustom = True, runHTTP = True,
      httpOptions = \<lparr>Client = None, Timeout = 2 * 1000000000\<rparr>\<rparr>"

datatype Option =
    WithCatalog "Catalog option"
  | DisableCustomValidators
  | DisableHTTPValidators
  | WithHTTPValidationOptions HTTPValidationOptions

fun applyOption :: "Option \<Rightarrow> config \<Rightarrow> config" where
  "applyOption (WithCatalog c) cfg = (case c of None \<Rightarrow> cfg | Some c' \<Rightarrow> cfg\<lparr>catalog := c'\<rparr>)"
| "applyOption DisableCustomValidators cfg = cfg\<lparr>runCustom := False, runHTTP := False\<rparr>"
| "applyOption DisableHTTPValidators cfg = cfg\<lparr>runHTTP := False\<rparr>"
| "applyOption (WithHTTPValidationOptions opts) cfg = cfg\<lparr>httpOptions := opts\<rparr>"

text \<open>
  \<open>markFailure\<close> is always called on a bucket that exists; its nil test has no branch
  here.
\<close>

definition markFailure :: "NodeAnalysisResult \<Rightarrow> string list \<Rightarrow> NodeAnalysisResult" where
  "markFailure analysis reasons =
     (let a = (if NodeAnalysisResult.Status analysis \<noteq> StatusFail
               then analysis\<lparr>NodeAnalysisResult.Status := StatusFail\<rparr> else analysis)
      in a\<lparr>NodeAnalysisResult.Reasons :=
             NodeAnalysisResult.Reasons a @ filter (\<lambda>reason. reason \<noteq> []) reasons\<rparr>)"

definition mergeAnalysis :: "NodeResult \<Rightarrow> NodeAnalysisResult \<Rightarrow> NodeResult" where
  "mergeAnalysis nodeResult analysis =
     (case map_of (Analyses nodeResult) (NodeAnalysisResult.Category analysis) of
        None \<Rightarrow> storeAnalysis nodeResult (NodeAnalysisResult.Category analysis) analysis
      | Some existing \<Rightarrow>
          (let existing1 = existing\<lparr>NodeAnalysisResult.Attributes :=
                 NodeAnalysisResult.Attributes existing @ NodeAnalysisResult.Attributes analysis\<rparr>;
               existing2 = (if NodeAnalysisResult.Status analysis = StatusFail
                            then markFailure existing1 (NodeAnalysisResult.Reasons analysis)
                            else existing1)
           in storeAnalysis nodeResult (NodeAnalysisResult.Category analysis) existing2))"

text \<open>
  One round of the loop over the attributes present on the node; the state of the loop
  is the set \<open>seen\<close> and the bucket.
\<close>

definition failingAttribute :: "string \<Rightarrow> string \<Rightarrow> AttributeResult" where
  "failingAttribute attrName msg =
     addReason \<lparr>AttributeResult.Name = attrName, AttributeResult.VersionSupport = [],
                AttributeResult.Status = StatusFail, AttributeResult.Reason = [],
                AttributeResult.Reasons = []\<rparr> msg"

definition checkAttribute ::
  "Version \<Rightarrow> NodeSpec option \<Rightarrow> xml_Attr \<Rightarrow> string set \<times> NodeAnalysisResult
     \<Rightarrow> string set \<times> NodeAnalysisResult" where
  "checkAttribute version spec attr st =
     (let attrName = Local (xml_Attr.Name attr);
          seen = insert attrName (fst st);
          analysis = snd st
      in case spec of
           None \<Rightarrow>
             (let msg = ''node is not recognized; attribute cannot be validated''
              in (seen, markFailure (addAttribute analysis (failingAttribute attrName msg)) [msg]))
         | Some sp \<Rightarrow>
             (case attribute spec attrName of
                None \<Rightarrow>
                  (let msg = ''attribute '' @ attrName @ '' is not allowed on ''
                               @ NodeSpec.Name sp
                   in (seen,
                       markFailure (addAttribute analysis (failingAttribute attrName msg)) [msg]))
              | Some attrSpec \<Rightarrow>
                  (let r0 = \<lparr>AttributeResult.Name = attrName,
                             AttributeResult.VersionSupport = AttributeSpec.Versions attrSpec,
                             AttributeResult.Status = StatusPass, AttributeResult.Reason = [],
                             AttributeResult.Reasons = []\<rparr>;
                       msg1 = ''attribute '' @ attrName @ '' is not supported in VAST '' @ version;
                       unsupported = \<not> attributeSupports attrSpec version;
                       r1 = (if unsupported
                             then addReason (r0\<lparr>AttributeResult.Status := StatusFail\<rparr>) msg1
                             else r0);
                       a1 = (if unsupported then markFailure analysis [msg1] else analysis);
                       msg2 = ''attribute '' @ attrName @ '' cannot be empty'';
                       empty = (TrimSpace (Value attr) = [] \<and> \<not> AllowEmpty attrSpec);
                       r2 = (if empty
                             then addReason (r1\<lparr>AttributeResult.Status := StatusFail\<rparr>) msg2
                             else r1);
                       a2 = (if empty then markFailure a1 [msg2] else a1)
                   in (seen, addAttribute a2 r2))))"

text \<open>One round of the loop over the attribute specs, for the required ones.\<close>

definition checkRequired ::
  "string set \<Rightarrow> string \<times> AttributeSpec \<Rightarrow> NodeAnalysisResult \<Rightarrow> NodeAnalysisResult" where
  "checkRequired seen entry analysis =
     (let attrSpec = snd entry
      in if \<not> Required attrSpec then analysis
         else if AttributeSpec.Name attrSpec \<in> seen then analysis
         else
           (let msg = ''missing required attribute '' @ AttributeSpec.Name attrSpec
            in markFailure
                 (addAttribute analysis
                    \<lparr>AttributeResult.Name = AttributeSpec.Name attrSpec,
                     AttributeResult.VersionSupport = AttributeSpec.Versions attrSpec,
                     AttributeResult.Status = StatusFail, AttributeResult.Reason = [],
                     AttributeResult.Reasons = [msg]\<rparr>)
                 [msg]))"

definition validateAttributes ::
  "genericNode \<Rightarrow> Version \<Rightarrow> NodeSpec option \<Rightarrow> NodeAnalysisResult \<Rightarrow> NodeAnalysisResult" where
  "validateAttributes n version spec analysis =
     (let st = fold (checkAttribute version spec) (Attrs n) ({}, analysis)
      in case spec of
           None \<Rightarrow> snd st
         | Some sp \<Rightarrow> fold (checkRequired (fst st)) (NodeSpec.Attributes sp) (snd st))"

definition defaultCategory :: "NodeAnalysisResult \<Rightarrow> NodeAnalysisResult" where
  "defaultCategory analysis =
     (if NodeAnalysisResult.Category analysis = []
      then analysis\<lparr>NodeAnalysisResult.Category := CustomAnalysisCategory\<rparr> else analysis)"

text \<open>The bodies of the two loops over the registered validators.\<close>

definition customStep ::
  "genericNode \<Rightarrow> Version \<Rightarrow> NodeValidatorFunc \<Rightarrow> NodeResult \<Rightarrow> NodeResult" where
  "customStep n version validator nr =
     (case validator \<lparr>NodeContext.Node = Some n, NodeContext.Version = version\<rparr> of
        None \<Rightarrow> nr
      | Some analysis \<Rightarrow> mergeAnalysis nr (defaultCategory analysis))"

definition applyCustomValidators ::
  "globals \<Rightarrow> NodeResult \<Rightarrow> genericNode \<Rightarrow> Version \<Rightarrow> NodeResult" where
  "applyCustomValidators g nodeResult n version =
     fold (customStep n version)
       (getCustomValidators (customValidators g) (NodeResult.Node nodeResult)) nodeResult"

definition httpStep ::
  "Context \<Rightarrow> http_Client \<Rightarrow> genericNode \<Rightarrow> Version \<Rightarrow> HTTPValidatorFunc \<Rightarrow> NodeResult
     \<Rightarrow> NodeResult" where
  "httpStep ctx client n version validator nr =
     (let res = validator ctx \<lparr>NodeContext.Node = Some n, NodeContext.Version = version\<rparr>
                  (Some client);
          analysis =
            (case snd res of
               Some err \<Rightarrow>
                 Some (markFailure
                         \<lparr>NodeAnalysisResult.Category = CustomAnalysisCategory,
                          NodeAnalysisResult.Status = [],
                          NodeAnalysisResult.Reason = [],
                          NodeAnalysisResult.Reasons = [],
                          NodeAnalysisResult.Attributes = []\<rparr> [Error err])
             | None \<Rightarrow> fst res)
      in case analysis of
           None \<Rightarrow> nr
         | Some a \<Rightarrow> mergeAnalysis nr (defaultCategory a))"

definition timeoutContext :: "config \<Rightarrow> Context" where
  "timeoutContext cfg =
     (if Timeout (httpOptions cfg) > 0 then Some (Timeout (httpOptions cfg)) else None)"

definition applyHTTPValidators ::
  "stdlib \<Rightarrow> globals \<Rightarrow> NodeResult \<Rightarrow> genericNode \<Rightarrow> Version \<Rightarrow> config \<Rightarrow> NodeResult" where
  "applyHTTPValidators lib g nodeResult n version cfg =
     (let validators = getHTTPValidators (HTTPValidatorRegistry g) (NodeResult.Node nodeResult)
      in if length validators = 0 then nodeResult
         else fold (httpStep (timeoutContext cfg) (clientOf lib (httpOptions cfg)) n version)
                validators nodeResult)"

text \<open>The checks of a node against its own spec and its parent's (the iab bucket).\<close>

definition structuralChecks ::
  "string \<Rightarrow> Version \<Rightarrow> NodeSpec option \<Rightarrow> NodeSpec option \<Rightarrow> bool \<Rightarrow> NodeAnalysisResult
     \<Rightarrow> NodeAnalysisResult" where
  "structuralChecks name version spec parentSpec parentAllowsUnknown iabAnalysis =
     (case spec of
        None \<Rightarrow>
          (if \<not> parentAllowsUnknown
           then markFailure iabAnalysis [''node '' @ name @ '' is not recognized in catalog'']
           else iabAnalysis)
      | Some sp \<Rightarrow>
          (let a1 = (if \<not> supports sp version
                     then markFailure iabAnalysis
                            [''node '' @ name @ '' is not supported in VAST '' @ version]
                     else iabAnalysis)
           in case parentSpec of
                None \<Rightarrow> a1
              | Some ps \<Rightarrow>
                  (if parentAllowsUnknown then a1
                   else
                     (case child parentSpec name of
                        None \<Rightarrow>
                          markFailure a1
                            [''node '' @ name @ '' is not a valid child of '' @ NodeSpec.Name ps]
                      | Some childSpec \<Rightarrow>
                          (if \<not> childSupports childSpec version
                           then markFailure a1
                                  [''node '' @ name @ '' is not allowed for parent ''
                                     @ NodeSpec.Name ps @ '' in VAST '' @ version]
                           else a1)))))"

text \<open>All that \<open>validateNodeRecursive\<close> does for a node before it turns to the children.\<close>

definition validateNode ::
  "stdlib \<Rightarrow> globals \<Rightarrow> genericNode \<Rightarrow> Version \<Rightarrow> config \<Rightarrow> NodeSpec option
     \<Rightarrow> NodeSpec option \<Rightarrow> bool \<Rightarrow> NodeResult" where
  "validateNode lib g n version cfg spec parentSpec parentAllowsUnknown =
     (let result0 = NodeResult (localName n)
                      (case spec of None \<Rightarrow> [] | Some sp \<Rightarrow> NodeSpec.Versions sp) [] [];
          added = addAnalysis result0 IABAnalysisCategory;
          iab1 = structuralChecks (NodeResult.Node result0) version spec parentSpec parentAllowsUnknown
                   (snd added);
          iab2 = (if \<not> parentAllowsUnknown then validateAttributes n version spec iab1
                  else iab1);
          result1 = storeAnalysis (fst added) IABAnalysisCategory iab2;
          result2 = (if runCustom cfg then applyCustomValidators g result1 n version
                     else result1)
      in if runHTTP cfg then applyHTTPValidators lib g result2 n version cfg else result2)"

definition childAllows :: "NodeSpec option \<Rightarrow> bool \<Rightarrow> bool" where
  "childAllows spec parentAllowsUnknown =
     (case spec of
        None \<Rightarrow> parentAllowsUnknown
      | Some sp \<Rightarrow> (if AllowUnknownChildren sp then True else parentAllowsUnknown))"

fun validateNodeRecursive ::
  "stdlib \<Rightarrow> globals \<Rightarrow> genericNode \<Rightarrow> Version \<Rightarrow> config \<Rightarrow> NodeSpec option
     \<Rightarrow> NodeSpec option \<Rightarrow> bool \<Rightarrow> NodeResult" where
  "validateNodeRecursive lib g (GenericNode name attrs children content) version cfg spec
       parentSpec parentAllowsUnknown =
     (let result = validateNode lib g (GenericNode name attrs children content) version cfg
                     spec parentSpec parentAllowsUnknown
      in NodeResult (NodeResult.Node result) (NodeResult.VersionSupport result) (Analyses result)
           (NodeResult.Children result
              @ map (\<lambda>c. validateNodeRecursive lib g c version cfg
                            (node (catalog cfg) (localName c)) spec
                            (childAllows spec parentAllowsUnknown))
                  children))"

definition Validate ::
  "stdlib \<Rightarrow> globals \<Rightarrow> string \<Rightarrow> Option list \<Rightarrow> error + ValidationResult" where
  "Validate lib g raw opts =
     (if length raw = 0 then Inl ErrEmptyXML
      else
        (let cfg = fold applyOption opts (defaultConfig g)
         in case buildNodeTree (xml_Decode lib) raw of
              Inl err \<Rightarrow> Inl err
            | Inr rootNode \<Rightarrow>
                (if localName rootNode \<noteq> ''VAST'' then Inl ErrInvalidRoot
                 else
                   (case attrValue rootNode ''version'' of
                      None \<Rightarrow> Inl ErrMissingVersion
                    | Some versionValue \<Rightarrow>
                        (if TrimSpace versionValue = [] then Inl ErrMissingVersion
                         else
                           (let version = TrimSpace versionValue
                            in case node (catalog cfg) ''VAST'' of
                                 None \<Rightarrow> Inl ErrCatalogMissingVAST
                               | Some rootSpec \<Rightarrow>
                                   (let rootResult =
                                          validateNodeRecursive lib g rootNode version cfg
                                            (Some rootSpec) None False;
                                        rootResult' =
                                          (if \<not> supports rootSpec version
                                           then (let added = addAnalysis rootResult
                                                               IABAnalysisCategory
                                                 in storeAnalysis (fst added) IABAnalysisCategory
                                                      (markFailure (snd added)
                                                         [Error ErrUnsupportedVersion @ '': ''
                                                            @ version]))
                                           else rootResult)
                                    in Inr \<lparr>ValidationResult.Version = version,
                                            Root = rootResult',
                                            Summaries =
                                              summarizeCategories (Some rootResult')\<rparr>)))))))"

section \<open>Notions used to state the properties\<close>

text \<open>A node result has a failed bucket in category \<open>c\<close>.\<close>

definition failedIn :: "NodeResult \<Rightarrow> string \<Rightarrow> bool" where
  "failedIn nr c =
     (case map_of (Analyses nr) c of None \<Rightarrow> False
      | Some b \<Rightarrow> NodeAnalysisResult.Status b = StatusFail)"

text \<open>
  The buckets of category \<open>c\<close> in the order of a pre-order walk of a result tree: the
  node's own bucket, if it has one, then those of its children from left to right.
\<close>

fun buckets :: "string \<Rightarrow> NodeResult \<Rightarrow> NodeAnalysisResult list" where
  "buckets c (NodeResult n vs an ch) =
     (case map_of an c of None \<Rightarrow> [] | Some b \<Rightarrow> [b]) @ concat (map (buckets c) ch)"

text \<open>A Go map has each key once: the categories of every node are distinct.\<close>

fun wfResult :: "NodeResult \<Rightarrow> bool" where
  "wfResult (NodeResult n vs an ch) = (distinct (map fst an) \<and> (\<forall>c \<in> set ch. wfResult c))"

definition failed :: "NodeAnalysisResult \<Rightarrow> bool" where
  "failed b = (NodeAnalysisResult.Status b = StatusFail)"

text \<open>
  The summary of a category as the data model describes it, from the buckets that
  contribute to it in pre-order: none if no node contributes; the number of buckets, the
  number of failed ones, \<open>fail\<close> if one failed and \<open>pass\<close> otherwise, and the first five
  reasons of failed buckets, a failed bucket without a reason giving none. The reason of
  a bucket is its field \<open>Reason\<close>, as in \<open>summarizeCategories\<close>.
\<close>

definition summaryOf :: "string \<Rightarrow> NodeAnalysisResult list \<Rightarrow> CategorySummary option" where
  "summaryOf c bs =
     (if bs = [] then None
      else Some \<lparr>Category = c, TotalNodes = int (length bs),
                 FailingNodes = int (length (filter failed bs)),
                 Status = (if list_ex failed bs then StatusFail else StatusPass),
                 Reasons = take 5 (filter (\<lambda>r. r \<noteq> [])
                                     (map NodeAnalysisResult.Reason (filter failed bs)))\<rparr>)"

text \<open>A summary after further buckets have been counted into it.\<close>

definition countInto :: "CategorySummary \<Rightarrow> NodeAnalysisResult list \<Rightarrow> CategorySummary" where
  "countInto s bs =
     \<lparr>Category = CategorySummary.Category s,
      TotalNodes = TotalNodes s + int (length bs),
      FailingNodes = FailingNodes s + int (length (filter failed bs)),
      Status = (if list_ex failed bs then StatusFail else CategorySummary.Status s),
      Reasons = CategorySummary.Reasons s
                 @ take (5 - length (CategorySummary.Reasons s))
                     (filter (\<lambda>r. r \<noteq> []) (map NodeAnalysisResult.Reason (filter failed bs)))\<rparr>"

definition freshSummary :: "string \<Rightarrow> CategorySummary" where
  "freshSummary c =
     \<lparr>Category = c, TotalNodes = 0, FailingNodes = 0, Status = StatusPass, Reasons = []\<rparr>"

definition startFrom :: "string \<Rightarrow> CategorySummary option \<Rightarrow> CategorySummary" where
  "startFrom c so = (case so of None \<Rightarrow> freshSummary c | Some s \<Rightarrow> s)"

definition afterBuckets ::
  "string \<Rightarrow> CategorySummary option \<Rightarrow> NodeAnalysisResult list \<Rightarrow> CategorySummary option" where
  "afterBuckets c so bs = (if bs = [] then so else Some (countInto (startFrom c so) bs))"

text \<open>
  The result of one attribute present on a node, as the engine's description gives it: a
  failure when the node has no spec, a failure when the spec does not list the attribute,
  and otherwise a result that fails if the attribute is not valid for the version or is
  empty where that is not allowed, with one reason for each.
\<close>

definition presentNames :: "genericNode \<Rightarrow> string list" where
  "presentNames n = map (\<lambda>a. Local (xml_Attr.Name a)) (Attrs n)"

definition attributeResult :: "Version \<Rightarrow> NodeSpec option \<Rightarrow> xml_Attr \<Rightarrow> AttributeResult" where
  "attributeResult version spec attr =
     (let attrName = Local (xml_Attr.Name attr)
      in case spec of
           None \<Rightarrow>
             failingAttribute attrName ''node is not recognized; attribute cannot be validated''
         | Some sp \<Rightarrow>
             (case map_of (NodeSpec.Attributes sp) attrName of
                None \<Rightarrow>
                  failingAttribute attrName
                    (''attribute '' @ attrName @ '' is not allowed on '' @ NodeSpec.Name sp)
              | Some attrSpec \<Rightarrow>
                  \<lparr>AttributeResult.Name = attrName,
                   AttributeResult.VersionSupport = AttributeSpec.Versions attrSpec,
                   AttributeResult.Status =
                     (if \<not> attributeSupports attrSpec version
                         \<or> (TrimSpace (Value attr) = [] \<and> \<not> AllowEmpty attrSpec)
                      then StatusFail else StatusPass),
                   AttributeResult.Reason = [],
                   AttributeResult.Reasons =
                     (if \<not> attributeSupports attrSpec version
                      then [''attribute '' @ attrName @ '' is not supported in VAST '' @ version]
                      else [])
                     @ (if TrimSpace (Value attr) = [] \<and> \<not> AllowEmpty attrSpec
                        then [''attribute '' @ attrName @ '' cannot be empty''] else [])\<rparr>))"

text \<open>
  The attribute specs of a node spec that are required and whose name no attribute of the
  node carries, and the synthetic result for one of them.
\<close>

definition missingRequired :: "NodeSpec \<Rightarrow> genericNode \<Rightarrow> AttributeSpec list" where
  "missingRequired sp n =
     filter (\<lambda>s. Required s \<and> AttributeSpec.Name s \<notin> set (presentNames n))
       (map snd (NodeSpec.Attributes sp))"

definition missingResult :: "AttributeSpec \<Rightarrow> AttributeResult" where
  "missingResult s =
     \<lparr>AttributeResult.Name = AttributeSpec.Name s,
      AttributeResult.VersionSupport = AttributeSpec.Versions s,
      AttributeResult.Status = StatusFail, AttributeResult.Reason = [],
      AttributeResult.Reasons = [''missing required attribute '' @ AttributeSpec.Name s]\<rparr>"

definition expectedAttributes ::
  "Version \<Rightarrow> NodeSpec option \<Rightarrow> genericNode \<Rightarrow> AttributeResult list" where
  "expectedAttributes version spec n =
     map (attributeResult version spec) (Attrs n)
       @ (case spec of None \<Rightarrow> [] | Some sp \<Rightarrow> map missingResult (missingRequired sp n))"

text \<open>The attribute results in the spec-compliance bucket of a node result.\<close>

definition iabAttributes :: "NodeResult \<Rightarrow> AttributeResult list" where
  "iabAttributes nr =
     (case map_of (Analyses nr) IABAnalysisCategory of
        None \<Rightarrow> [] | Some b \<Rightarrow> NodeAnalysisResult.Attributes b)"

text \<open>
  The bucket of category \<open>c\<close> exists and continues \<open>b\<close>: its attribute results begin
  with those of \<open>b\<close>, it is failed if \<open>b\<close> is, and it has the reasons of \<open>b\<close>.
\<close>

definition grows :: "NodeAnalysisResult \<Rightarrow> NodeResult \<Rightarrow> string \<Rightarrow> bool" where
  "grows b nr c =
     (case map_of (Analyses nr) c of
        None \<Rightarrow> False
      | Some b' \<Rightarrow> prefix (NodeAnalysisResult.Attributes b) (NodeAnalysisResult.Attributes b')
                   \<and> (NodeAnalysisResult.Status b = StatusFail
                        \<longrightarrow> NodeAnalysisResult.Status b' = StatusFail)
                   \<and> set (NodeAnalysisResult.Reasons b) \<subseteq> set (NodeAnalysisResult.Reasons b'))"

text \<open>
  The spec-compliance bucket as the checks leave it, before any hook runs, and the hooks
  of a node as \<open>validateNodeRecursive\<close> runs them.
\<close>

definition passBucket :: NodeAnalysisResult where
  "passBucket =
     \<lparr>NodeAnalysisResult.Category = IABAnalysisCategory, NodeAnalysisResult.Status = StatusPass,
      NodeAnalysisResult.Reason = [], NodeAnalysisResult.Reasons = [],
      NodeAnalysisResult.Attributes = []\<rparr>"

definition checksBucket ::
  "genericNode \<Rightarrow> Version \<Rightarrow> NodeSpec option \<Rightarrow> NodeSpec option \<Rightarrow> bool \<Rightarrow> NodeAnalysisResult" where
  "checksBucket n version spec parentSpec parentAllowsUnknown =
     (let iab1 = structuralChecks (localName n) version spec parentSpec parentAllowsUnknown
                   passBucket
      in if \<not> parentAllowsUnknown then validateAttributes n version spec iab1 else iab1)"

definition runHooks ::
  "stdlib \<Rightarrow> globals \<Rightarrow> config \<Rightarrow> genericNode \<Rightarrow> Version \<Rightarrow> NodeResult \<Rightarrow> NodeResult" where
  "runHooks lib g cfg n version r =
     (let r2 = (if runCustom cfg then applyCustomValidators g r n version else r)
      in if runHTTP cfg then applyHTTPValidators lib g r2 n version cfg else r2)"

text \<open>
  What a subtree under a node that allows unknown children comes to: the bucket of a
  node records nothing, except that a node with a spec of its own is still checked
  against the version of the document; then the hooks run; the children follow in the
  same way, whatever their names, parents and attributes.
\<close>

definition exemptBucket :: "string \<Rightarrow> Version \<Rightarrow> NodeSpec option \<Rightarrow> NodeAnalysisResult" where
  "exemptBucket name version spec =
     (case spec of
        None \<Rightarrow> passBucket
      | Some sp \<Rightarrow>
          (if supports sp version then passBucket
           else markFailure passBucket
                  [''node '' @ name @ '' is not supported in VAST '' @ version]))"

fun exemptResult ::
  "stdlib \<Rightarrow> globals \<Rightarrow> config \<Rightarrow> Version \<Rightarrow> NodeSpec option \<Rightarrow> genericNode \<Rightarrow> NodeResult" where
  "exemptResult lib g cfg version spec (GenericNode name attrs children content) =
     (let r = runHooks lib g cfg (GenericNode name attrs children content) version
                (NodeResult (Local name)
                   (case spec of None \<Rightarrow> [] | Some sp \<Rightarrow> NodeSpec.Versions sp)
                   [(IABAnalysisCategory, exemptBucket (Local name) version spec)] [])
      in NodeResult (NodeResult.Node r) (NodeResult.VersionSupport r) (Analyses r)
           (map (\<lambda>c. exemptResult lib g cfg version (node (catalog cfg) (localName c)) c)
              children))"

text \<open>The first attribute of a list with a given local name.\<close>

definition firstNamed :: "string \<Rightarrow> xml_Attr list \<Rightarrow> xml_Attr option" where
  "firstNamed name attrs = List.find (\<lambda>a. Local (xml_Attr.Name a) = name) attrs"

text \<open>
  What the token stream of a document says about it: whether a token opens an element,
  and whether some closing tag arrives while no element is open (\<open>d\<close> counts the open
  elements).
\<close>

fun isStart :: "xml_Token \<Rightarrow> bool" where
  "isStart (StartElement n a) = True"
| "isStart t = False"

fun closesUnopened :: "nat \<Rightarrow> xml_Token list \<Rightarrow> bool" where
  "closesUnopened d [] = False"
| "closesUnopened d (StartElement n a # ts) = closesUnopened (Suc d) ts"
| "closesUnopened d (EndElement n # ts) = (d = 0 \<or> closesUnopened (d - 1) ts)"
| "closesUnopened d (t # ts) = closesUnopened d ts"

definition started :: "builder \<Rightarrow> bool" where
  "started b = (stack b \<noteq> [] \<or> root b \<noteq> None)"

text \<open>
  The root element a builder has met so far, by name and attributes: the outermost open
  element, or, when none is open, the root that was closed last.
\<close>

definition headOf :: "builder \<Rightarrow> (xml_Name \<times> xml_Attr list) option" where
  "headOf b =
     (case stack b of
        [] \<Rightarrow> map_option (\<lambda>n. (genericNode.Name n, Attrs n)) (root b)
      | x # xs \<Rightarrow> Some (genericNode.Name (last (x # xs)), Attrs (last (x # xs))))"

text \<open>
  The root element as the token stream gives it: the name and the attributes of the last
  start tag that arrives while no element is open (\<open>d\<close> counts the open elements). The
  declared version is the trimmed value of the first attribute of local name \<open>version\<close>,
  if that is not blank.
\<close>

fun rootStart ::
  "nat \<Rightarrow> xml_Token list \<Rightarrow> (xml_Name \<times> xml_Attr list) option
     \<Rightarrow> (xml_Name \<times> xml_Attr list) option" where
  "rootStart d [] acc = acc"
| "rootStart d (StartElement n a # ts) acc =
     rootStart (Suc d) ts (if d = 0 then Some (n, a) else acc)"
| "rootStart d (EndElement n # ts) acc = rootStart (d - 1) ts acc"
| "rootStart d (t # ts) acc = rootStart d ts acc"

definition declaredVersion :: "xml_Attr list \<Rightarrow> Version option" where
  "declaredVersion attrs =
     (case firstNamed ''version'' attrs of
        None \<Rightarrow> None
      | Some a \<Rightarrow> (if TrimSpace (Value a) = [] then None else Some (TrimSpace (Value a))))"

definition documentVersion :: "xml_Token list \<Rightarrow> Version option" where
  "documentVersion toks =
     (case rootStart 0 toks None of None \<Rightarrow> None | Some na \<Rightarrow> declaredVersion (snd na))"

text \<open>
  The configuration in effect, read off the options: the catalog of the last option that
  supplies one, else the built-in catalog; the HTTP options of the last option that
  supplies them, else no client and a timeout of two seconds; custom hooks run unless
  they are disabled, HTTP hooks unless they or the custom hooks are disabled.
\<close>

fun chosenCatalogs :: "Option list \<Rightarrow> Catalog list" where
  "chosenCatalogs [] = []"
| "chosenCatalogs (WithCatalog (Some c) # os) = c # chosenCatalogs os"
| "chosenCatalogs (opt # os) = chosenCatalogs os"

definition catalogInEffect :: "globals \<Rightarrow> Option list \<Rightarrow> Catalog" where
  "catalogInEffect g opts =
     (if chosenCatalogs opts = [] then defaultCatalog g else last (chosenCatalogs opts))"

fun chosenHTTPOptions :: "Option list \<Rightarrow> HTTPValidationOptions list" where
  "chosenHTTPOptions [] = []"
| "chosenHTTPOptions (WithHTTPValidationOptions h # os) = h # chosenHTTPOptions os"
| "chosenHTTPOptions (opt # os) = chosenHTTPOptions os"

definition configInEffect :: "globals \<Rightarrow> Option list \<Rightarrow> config" where
  "configInEffect g opts =
     \<lparr>catalog = catalogInEffect g opts,
      runCustom = (DisableCustomValidators \<notin> set opts),
      runHTTP = (DisableCustomValidators \<notin> set opts \<and> DisableHTTPValidators \<notin> set opts),
      httpOptions = (if chosenHTTPOptions opts = []
                     then \<lparr>Client = None, Timeout = 2 * 1000000000\<rparr>
                     else last (chosenHTTPOptions opts))\<rparr>"

text \<open>
  The conditions under which a call fails as a whole, stated on the input, the token
  stream and the options: the input is empty (no bytes, or no element in it), the markup
  is malformed (the tokenizer reports an error, or a closing tag has nothing to close),
  the root element is not \<open>VAST\<close>, its version attribute is absent or blank, or the
  catalog in effect has no spec for \<open>VAST\<close>.
\<close>

definition callLevelError :: "stdlib \<Rightarrow> globals \<Rightarrow> string \<Rightarrow> Option list \<Rightarrow> bool" where
  "callLevelError lib g raw opts =
     (raw = []
      \<or> \<not> list_ex isStart (fst (xml_Decode lib raw))
      \<or> snd (xml_Decode lib raw) \<noteq> None
      \<or> closesUnopened 0 (fst (xml_Decode lib raw))
      \<or> (case rootStart 0 (fst (xml_Decode lib raw)) None of
            None \<Rightarrow> False
          | Some na \<Rightarrow>
              Local (fst na) \<noteq> ''VAST''
              \<or> declaredVersion (snd na) = None
              \<or> Nodes (catalogInEffect g opts) ''VAST'' = None))"

text \<open>
  The failures of a document that do not fail the call, as the engine's description
  lists them. For the node itself: an unrecognized node, a node not valid for the
  version, a node that is not a child of its parent or not for the version; none of the
  first and the last two under a node that allows unknown children. Then the reasons of
  its attribute results, which are not made under such a node.
\<close>

definition structuralReasons ::
  "Version \<Rightarrow> NodeSpec option \<Rightarrow> NodeSpec option \<Rightarrow> bool \<Rightarrow> string \<Rightarrow> string list" where
  "structuralReasons version spec parentSpec allowed name =
     (case spec of
        None \<Rightarrow> (if allowed then [] else [''node '' @ name @ '' is not recognized in catalog''])
      | Some sp \<Rightarrow>
          (if version \<in> set (NodeSpec.Versions sp) then []
           else [''node '' @ name @ '' is not supported in VAST '' @ version])
          @ (case parentSpec of
               None \<Rightarrow> []
             | Some ps \<Rightarrow>
                 (if allowed then []
                  else (case NodeSpec.Children ps name of
                          None \<Rightarrow>
                            [''node '' @ name @ '' is not a valid child of '' @ NodeSpec.Name ps]
                        | Some cs \<Rightarrow>
                            (if version \<in> set (ChildSpec.Versions cs) then []
                             else [''node '' @ name @ '' is not allowed for parent ''
                                     @ NodeSpec.Name ps @ '' in VAST '' @ version])))))"

definition expectedBucket ::
  "Version \<Rightarrow> NodeSpec option \<Rightarrow> NodeSpec option \<Rightarrow> bool \<Rightarrow> genericNode
     \<Rightarrow> NodeAnalysisResult" where
  "expectedBucket version spec parentSpec allowed n =
     \<lparr>NodeAnalysisResult.Category = IABAnalysisCategory,
      NodeAnalysisResult.Status =
        (if structuralReasons version spec parentSpec allowed (Local (genericNode.Name n))
              @ concat (map AttributeResult.Reasons
                          (if allowed then [] else expectedAttributes version spec n)) = []
         then StatusPass else StatusFail),
      NodeAnalysisResult.Reason = [],
      NodeAnalysisResult.Reasons =
        structuralReasons version spec parentSpec allowed (Local (genericNode.Name n))
          @ concat (map AttributeResult.Reasons
                      (if allowed then [] else expectedAttributes version spec n)),
      NodeAnalysisResult.Attributes = (if allowed then [] else expectedAttributes version spec n)\<rparr>"

text \<open>
  The result tree of a document when no hook runs: every node has the one bucket of the
  spec-compliance category, and the children follow in document order, each looked up in
  the catalog by its name, under the permission of the node or of an ancestor.
\<close>

fun expectedResult ::
  "Catalog \<Rightarrow> Version \<Rightarrow> NodeSpec option \<Rightarrow> NodeSpec option \<Rightarrow> bool \<Rightarrow> genericNode
     \<Rightarrow> NodeResult" where
  "expectedResult cat version spec parentSpec allowed (GenericNode name attrs children content) =
     NodeResult (Local name) (case spec of None \<Rightarrow> [] | Some sp \<Rightarrow> NodeSpec.Versions sp)
       [(IABAnalysisCategory,
         expectedBucket version spec parentSpec allowed (GenericNode name attrs children content))]
       (map (\<lambda>c. expectedResult cat version (Nodes cat (Local (genericNode.Name c))) spec
                    (allowed \<or> (case spec of None \<Rightarrow> False | Some sp \<Rightarrow> AllowUnknownChildren sp))
                    c)
          children)"

text \<open>
  The bucket of the root: that of any node, with the unsupported-version failure added
  when the version is not one of the root spec's.
\<close>

definition rootBucket :: "Version \<Rightarrow> NodeSpec \<Rightarrow> genericNode \<Rightarrow> NodeAnalysisResult" where
  "rootBucket version rootSpec rootNode =
     (if version \<in> set (NodeSpec.Versions rootSpec)
      then expectedBucket version (Some rootSpec) None False rootNode
      else (expectedBucket version (Some rootSpec) None False rootNode)
             \<lparr>NodeAnalysisResult.Status := StatusFail,
              NodeAnalysisResult.Reasons :=
                NodeAnalysisResult.Reasons (expectedBucket version (Some rootSpec) None False rootNode)
                  @ [''Unsupported VAST version: '' @ version]\<rparr>)"

definition expectedRoot :: "Catalog \<Rightarrow> Version \<Rightarrow> NodeSpec \<Rightarrow> genericNode \<Rightarrow> NodeResult" where
  "expectedRoot cat version rootSpec rootNode =
     NodeResult (Local (genericNode.Name rootNode)) (NodeSpec.Versions rootSpec)
       [(IABAnalysisCategory, rootBucket version rootSpec rootNode)]
       (map (\<lambda>c. expectedResult cat version (Nodes cat (Local (genericNode.Name c)))
                    (Some rootSpec) (AllowUnknownChildren rootSpec) c)
          (genericNode.Children rootNode))"

text \<open>
  With hooks, a node result records the failures of the node: its spec-compliance bucket
  continues the expected one, and every registered validator that fails on the node, by
  a failed result or by an error, leaves in its category a failed bucket that has the
  reasons of the failure (\<open>markFailure\<close> drops the empty ones). A result without a
  category counts for the custom category; so does an error, whose text is the reason.
\<close>

definition categoryOf :: "NodeAnalysisResult \<Rightarrow> string" where
  "categoryOf a =
     (if NodeAnalysisResult.Category a = [] then CustomAnalysisCategory
      else NodeAnalysisResult.Category a)"

definition hookBucket :: "NodeAnalysisResult \<Rightarrow> NodeAnalysisResult" where
  "hookBucket a =
     \<lparr>NodeAnalysisResult.Category = categoryOf a, NodeAnalysisResult.Status = StatusFail,
      NodeAnalysisResult.Reason = [],
      NodeAnalysisResult.Reasons = filter (\<lambda>reason. reason \<noteq> []) (NodeAnalysisResult.Reasons a),
      NodeAnalysisResult.Attributes = []\<rparr>"

definition reported :: "NodeAnalysisResult \<Rightarrow> NodeResult \<Rightarrow> bool" where
  "reported a r =
     (NodeAnalysisResult.Status a = StatusFail \<longrightarrow> grows (hookBucket a) r (categoryOf a))"

definition hookOutcome ::
  "NodeAnalysisResult option \<times> error option \<Rightarrow> NodeAnalysisResult option" where
  "hookOutcome res =
     (case snd res of None \<Rightarrow> fst res | Some err \<Rightarrow> Some (failedCustom (Error err)))"

definition hookFailuresRecorded ::
  "stdlib \<Rightarrow> globals \<Rightarrow> config \<Rightarrow> Version \<Rightarrow> genericNode \<Rightarrow> NodeResult \<Rightarrow> bool" where
  "hookFailuresRecorded lib g cfg version n r =
     ((runCustom cfg \<longrightarrow>
         (\<forall>f \<in> set (getCustomValidators (customValidators g) (Local (genericNode.Name n))).
            case f \<lparr>NodeContext.Node = Some n, NodeContext.Version = version\<rparr> of
              None \<Rightarrow> True
            | Some a \<Rightarrow> reported a r))
      \<and> (runHTTP cfg \<longrightarrow>
           (\<forall>h \<in> set (getHTTPValidators (HTTPValidatorRegistry g) (Local (genericNode.Name n))).
              case hookOutcome (h (timeoutContext cfg)
                                  \<lparr>NodeContext.Node = Some n, NodeContext.Version = version\<rparr>
                                  (Some (clientOf lib (httpOptions cfg)))) of
                None \<Rightarrow> True
              | Some a \<Rightarrow> reported a r)))"

fun recorded ::
  "stdlib \<Rightarrow> globals \<Rightarrow> config \<Rightarrow> Version \<Rightarrow> NodeSpec option \<Rightarrow> NodeSpec option \<Rightarrow> bool
     \<Rightarrow> genericNode \<Rightarrow> NodeResult \<Rightarrow> bool" where
  "recorded lib g cfg version spec parentSpec allowed (GenericNode name attrs children content) r =
     (NodeResult.Node r = Local name
      \<and> grows (expectedBucket version spec parentSpec allowed
                  (GenericNode name attrs children content)) r IABAnalysisCategory
      \<and> hookFailuresRecorded lib g cfg version (GenericNode name attrs children content) r
      \<and> list_all2
           (\<lambda>c rc. recorded lib g cfg version (Nodes (catalog cfg) (Local (genericNode.Name c)))
                      spec
                      (allowed \<or> (case spec of None \<Rightarrow> False
                                   | Some sp \<Rightarrow> AllowUnknownChildren sp))
                      c rc)
           children (NodeResult.Children r))"

text \<open>
  The names of a tree, as a tree: a result tree has a node for every node of the parsed
  tree, under the same name, when the two have the same shape.
\<close>

datatype shape = Shape string "shape list"

fun shapeOf :: "genericNode \<Rightarrow> shape" where
  "shapeOf (GenericNode name attrs children content) = Shape (Local name) (map shapeOf children)"

fun resultShape :: "NodeResult \<Rightarrow> shape" where
  "resultShape (NodeResult n vs an ch) = Shape n (map resultShape ch)"

text \<open>The last step of \<open>Validate\<close> on the result of the root.\<close>

definition finishRoot :: "NodeSpec \<Rightarrow> Version \<Rightarrow> NodeResult \<Rightarrow> NodeResult" where
  "finishRoot rootSpec version rootResult =
     (if \<not> supports rootSpec version
      then storeAnalysis (fst (addAnalysis rootResult IABAnalysisCategory)) IABAnalysisCategory
             (markFailure (snd (addAnalysis rootResult IABAnalysisCategory))
                [Error ErrUnsupportedVersion @ '': '' @ version])
      else rootResult)"

text \<open>
  The string handed to the URL parser: the input without surrounding white space, with
  \<open>https:\<close> put before it when it begins with two slashes.
\<close>

definition probeTarget :: "string \<Rightarrow> string" where
  "probeTarget raw =
     (if HasPrefix (TrimSpace raw) ''//'' then ''https:'' @ TrimSpace raw else TrimSpace raw)"

text \<open>
  When the normalization rejects its input: as the code has it (\<open>rejected\<close>: no scheme
  or no host), and as the claim words it (\<open>rejectedAsClaimed\<close>: neither scheme nor host).
\<close>

definition rejected :: "stdlib \<Rightarrow> string \<Rightarrow> bool" where
  "rejected lib raw =
     (TrimSpace raw = []
      \<or> (case url_Parse lib (probeTarget raw) of
            Inl e \<Rightarrow> True
          | Inr parsed \<Rightarrow>
              (Scheme parsed = [] \<or> Host parsed = [])
              \<or> (Scheme parsed \<noteq> ''http'' \<and> Scheme parsed \<noteq> ''https'')))"

definition rejectedAsClaimed :: "stdlib \<Rightarrow> string \<Rightarrow> bool" where
  "rejectedAsClaimed lib raw =
     (TrimSpace raw = []
      \<or> (case url_Parse lib (probeTarget raw) of
            Inl e \<Rightarrow> True
          | Inr parsed \<Rightarrow>
              (Scheme parsed = [] \<and> Host parsed = [])
              \<or> (Scheme parsed \<noteq> ''http'' \<and> Scheme parsed \<noteq> ''https'')))"







subsection \<open>Sample data\<close>

text \<open>An excerpt of the built-in catalog.\<close>

definition allSupportedVersions :: "Version list" where
  "allSupportedVersions = [''3.0'', ''4.0'', ''4.1'', ''4.2'', ''4.3'']"

definition version40Plus :: "Version list" where
  "version40Plus = [''4.0'', ''4.1'', ''4.2'', ''4.3'']"

definition attrSpec :: "string \<Rightarrow> bool \<Rightarrow> string \<times> AttributeSpec" where
  "attrSpec name req =
     (name, \<lparr>AttributeSpec.Name = name, AttributeSpec.Versions = allSupportedVersions,
             Required = req, AllowEmpty = False\<rparr>)"

definition childSpec :: "string \<Rightarrow> Version list \<Rightarrow> bool \<Rightarrow> bool \<Rightarrow> ChildSpec" where
  "childSpec name vs opt mult =
     \<lparr>ChildSpec.Name = name, ChildSpec.Versions = vs, Optional = opt, Multiple = mult\<rparr>"

definition vastSpec :: NodeSpec where
  "vastSpec =
     \<lparr>NodeSpec.Name = ''VAST'', NodeSpec.Versions = allSupportedVersions,
      NodeSpec.Attributes = [attrSpec ''version'' True],
      NodeSpec.Children =
        [''Ad'' \<mapsto> childSpec ''Ad'' allSupportedVersions False True,
         ''Error'' \<mapsto> childSpec ''Error'' allSupportedVersions True True],
      AllowUnknownChildren = False\<rparr>"

definition adSpec :: NodeSpec where
  "adSpec =
     \<lparr>NodeSpec.Name = ''Ad'', NodeSpec.Versions = allSupportedVersions,
      NodeSpec.Attributes =
        [attrSpec ''id'' False, attrSpec ''sequence'' False,
         attrSpec ''conditionalAd'' False, attrSpec ''adType'' False],
      NodeSpec.Children =
        [''InLine'' \<mapsto> childSpec ''InLine'' allSupportedVersions True False,
         ''Wrapper'' \<mapsto> childSpec ''Wrapper'' allSupportedVersions True False],
      AllowUnknownChildren = False\<rparr>"

definition extensionSpec :: NodeSpec where
  "extensionSpec =
     \<lparr>NodeSpec.Name = ''Extension'', NodeSpec.Versions = allSupportedVersions,
      NodeSpec.Attributes = [attrSpec ''type'' False],
      NodeSpec.Children = Map.empty,
      AllowUnknownChildren = True\<rparr>"

definition adVerificationsSpec :: NodeSpec where
  "adVerificationsSpec =
     \<lparr>NodeSpec.Name = ''AdVerifications'', NodeSpec.Versions = version40Plus,
      NodeSpec.Attributes = [],
      NodeSpec.Children =
        [''Verification'' \<mapsto> childSpec ''Verification'' version40Plus False True],
      AllowUnknownChildren = False\<rparr>"

definition sampleCatalog :: Catalog where
  "sampleCatalog = \<lparr>Nodes =
     [''VAST'' \<mapsto> vastSpec, ''Ad'' \<mapsto> adSpec, ''Extension'' \<mapsto> extensionSpec,
      ''AdVerifications'' \<mapsto> adVerificationsSpec]\<rparr>"

definition elem :: "string \<Rightarrow> (string \<times> string) list \<Rightarrow> genericNode list \<Rightarrow> genericNode" where
  "elem name attrs children =
     GenericNode \<lparr>Space = [], Local = name\<rparr>
       (map (\<lambda>kv. \<lparr>xml_Attr.Name = \<lparr>Space = [], Local = fst kv\<rparr>, Value = snd kv\<rparr>) attrs)
       children []"

definition sampleGlobals :: globals where
  "sampleGlobals =
     \<lparr>defaultCatalog = sampleCatalog, customValidators = Map.empty,
      HTTPValidatorRegistry = Map.empty\<rparr>"

text \<open>
  Sample documents, with the tokens the decoder returns for them; any other input is
  taken to be malformed.
\<close>

definition docSupported :: string where
  \<open>docSupported = ''<VAST version="4.2"><Ad id="1"/></VAST>''\<close>

definition docVersion5 :: string where
  \<open>docVersion5 = ''<VAST version="5.0"><Ad id="1"/></VAST>''\<close>

definition docOtherRoot :: string where
  \<open>docOtherRoot = ''<Foo/>''\<close>

definition startTag :: "string \<Rightarrow> (string \<times> string) list \<Rightarrow> xml_Token" where
  "startTag name attrs =
     StartElement \<lparr>Space = [], Local = name\<rparr>
       (map (\<lambda>kv. \<lparr>xml_Attr.Name = \<lparr>Space = [], Local = fst kv\<rparr>, Value = snd kv\<rparr>) attrs)"

definition endTag :: "string \<Rightarrow> xml_Token" where
  "endTag name = EndElement \<lparr>Space = [], Local = name\<rparr>"

definition sampleDecode :: xml_Decoder where
  "sampleDecode raw =
     (if raw = docSupported
      then ([startTag ''VAST'' [(''version'', ''4.2'')], startTag ''Ad'' [(''id'', ''1'')],
             endTag ''Ad'', endTag ''VAST''], None)
      else if raw = docVersion5
      then ([startTag ''VAST'' [(''version'', ''5.0'')], startTag ''Ad'' [(''id'', ''1'')],
             endTag ''Ad'', endTag ''VAST''], None)
      else if raw = docOtherRoot
      then ([startTag ''Foo'' [], endTag ''Foo''], None)
      else ([], Some (ErrExternal ''XML syntax error'')))"

text \<open>
  Sample URLs, with what \<open>url.Parse\<close> returns for them, and a server that refuses
  \<open>HEAD\<close> and answers a ranged \<open>GET\<close>.
\<close>

definition sampleParse :: "string \<Rightarrow> error + url_URL" where
  "sampleParse s =
     (if s = ''https://cdn.example.com/video.mp4''
      then Inr \<lparr>Scheme = ''https'', Host = ''cdn.example.com'', Rest = ''/video.mp4''\<rparr>
      else if s = ''http:/video.mp4''
      then Inr \<lparr>Scheme = ''http'', Host = [], Rest = ''/video.mp4''\<rparr>
      else Inl (ErrExternal ''parse error''))"

definition sampleString :: "url_URL \<Rightarrow> string" where
  "sampleString u =
     Scheme u @ '':'' @ (if Host u = [] then [] else ''//'' @ Host u) @ Rest u"

definition getOnlyServer :: http_Client where
  "getOnlyServer req =
     (if Method req = ''HEAD''
      then Inr \<lparr>StatusCode = 405, http_Response.Header = []\<rparr>
      else Inr \<lparr>StatusCode = 200,
                http_Response.Header = [(''Content-Type'', ''video/mp4; codecs=avc1'')]\<rparr>)"


definition sampleLib :: stdlib where
  "sampleLib =
     \<lparr>xml_Decode = sampleDecode, url_Parse = sampleParse, url_String = sampleString,
      http_DefaultClient = getOnlyServer\<rparr>"



definition failingHook :: NodeValidatorFunc where
  "failingHook ctx = Some (failedCustom ''media file URL failed custom check'')"

text \<open>The sample globals with a custom validator registered for \<open>Ad\<close> that always fails.\<close>

definition hookedGlobals :: globals where
  "hookedGlobals =
     sampleGlobals\<lparr>customValidators :=
       RegisterCustomValidator (customValidators sampleGlobals) ''Ad'' (Some failingHook)\<rparr>"

text \<open>
  The sample globals with the built-in media file probe registered, as an HTTP validator,
  for \<open>Ad\<close>: an \<open>Ad\<close> element has no text of its own, so the probe fails on it.
\<close>

definition probedGlobals :: globals where
  "probedGlobals =
     sampleGlobals\<lparr>HTTPValidatorRegistry :=
       RegisterHTTPValidator (HTTPValidatorRegistry sampleGlobals) ''Ad''
         (Some (mediaFileHook sampleLib))\<rparr>"

definition quietConfig :: config where
  "quietConfig =
     \<lparr>catalog = sampleCatalog, runCustom = False, runHTTP = False,
      httpOptions = \<lparr>Client = None, Timeout = 0\<rparr>\<rparr>"

definition sampleFailed :: NodeAnalysisResult where
  "sampleFailed = failedCustom ''first hook failed''"

definition samplePassed :: NodeAnalysisResult where
  "samplePassed =
     \<lparr>NodeAnalysisResult.Category = CustomAnalysisCategory,
      NodeAnalysisResult.Status = StatusPass, NodeAnalysisResult.Reason = [],
      NodeAnalysisResult.Reasons = [],
      NodeAnalysisResult.Attributes =
        [\<lparr>AttributeResult.Name = ''type'', AttributeResult.VersionSupport = [],
          AttributeResult.Status = StatusPass, AttributeResult.Reason = [],
          AttributeResult.Reasons = []\<rparr>]\<rparr>"

definition sampleResult :: NodeResult where
  "sampleResult = NodeResult ''MediaFile'' [] [(CustomAnalysisCategory, sampleFailed)] []"

text \<open>
  A result tree for the summaries: a passing root, an empty-reason failure, and six more
  failures, one of them nested.
\<close>

definition leafBucket :: "ResultStatus \<Rightarrow> string \<Rightarrow> NodeAnalysisResult" where
  "leafBucket st r =
     \<lparr>NodeAnalysisResult.Category = IABAnalysisCategory, NodeAnalysisResult.Status = st,
      NodeAnalysisResult.Reason = r, NodeAnalysisResult.Reasons = [],
      NodeAnalysisResult.Attributes = []\<rparr>"

definition leaf :: "string \<Rightarrow> ResultStatus \<Rightarrow> string \<Rightarrow> NodeResult list \<Rightarrow> NodeResult" where
  "leaf n st r ch = NodeResult n [] [(IABAnalysisCategory, leafBucket st r)] ch"

definition sampleTree :: NodeResult where
  "sampleTree =
     leaf ''VAST'' StatusPass []
       [leaf ''A'' StatusFail [] [],
        leaf ''B'' StatusFail ''b'' [leaf ''C'' StatusFail ''c'' []],
        leaf ''D'' StatusFail ''d'' [],
        NodeResult ''X'' [] [] [],
        leaf ''E'' StatusFail ''e'' [],
        leaf ''F'' StatusFail ''f'' [],
        leaf ''G'' StatusFail ''g'' []]"

text \<open>
  A subtree of an \<open>Extension\<close> element: \<open>AdVerifications\<close> is in the catalog, for the
  versions from 4.0 on; \<open>Pixel\<close> is not in the catalog.
\<close>

definition exemptNode :: genericNode where
  "exemptNode = elem ''AdVerifications'' [(''vendor'', [])] [elem ''Pixel'' [(''loc'', ''0'')] []]"

text \<open>
  A root element with attributes it may not have, one of them twice, and without the
  required \<open>version\<close>; and one with two attributes of local name \<open>version\<close>, the first in
  a namespace.
\<close>

definition strayNode :: genericNode where
  "strayNode = elem ''VAST'' [(''bogus'', ''1''), (''bogus'', ''2'')] []"

definition twiceNode :: genericNode where
  "twiceNode =
     GenericNode \<lparr>Space = [], Local = ''VAST''\<rparr>
       [\<lparr>xml_Attr.Name = \<lparr>Space = ''ext'', Local = ''version''\<rparr>, Value = ''3.0''\<rparr>,
        \<lparr>xml_Attr.Name = \<lparr>Space = [], Local = ''version''\<rparr>, Value = ''4.2''\<rparr>] [] []"

section \<open>A failed bucket stays failed\<close>

lemma markFailure_Status [simp]: "NodeAnalysisResult.Status (markFailure a rs) = StatusFail"
  by (simp add: markFailure_def Let_def)

lemma markFailure_Attributes [simp]:
  "NodeAnalysisResult.Attributes (markFailure a rs) = NodeAnalysisResult.Attributes a"
  by (simp add: markFailure_def Let_def)

lemma markFailure_Category [simp]:
  "NodeAnalysisResult.Category (markFailure a rs) = NodeAnalysisResult.Category a"
  by (simp add: markFailure_def Let_def)

lemma addAttribute_Status [simp]:
  "NodeAnalysisResult.Status (addAttribute a r) = NodeAnalysisResult.Status a"
  by (simp add: addAttribute_def)

lemma Analyses_storeAnalysis [simp]:
  "map_of (Analyses (storeAnalysis nr c a)) = (map_of (Analyses nr))(c \<mapsto> a)"
  by (simp add: storeAnalysis_def update_conv')

lemma structuralChecks_keeps_fail:
  "NodeAnalysisResult.Status a = StatusFail \<Longrightarrow>
   NodeAnalysisResult.Status (structuralChecks name v spec ps pau a) = StatusFail"
  by (simp add: structuralChecks_def Let_def split: option.splits)

lemma checkAttribute_keeps_fail:
  "NodeAnalysisResult.Status (snd st) = StatusFail \<Longrightarrow>
   NodeAnalysisResult.Status (snd (checkAttribute v spec attr st)) = StatusFail"
  by (simp add: checkAttribute_def Let_def split: option.splits)

lemma fold_checkAttribute_keeps_fail:
  "NodeAnalysisResult.Status (snd st) = StatusFail \<Longrightarrow>
   NodeAnalysisResult.Status (snd (fold (checkAttribute v spec) attrs st)) = StatusFail"
  by (induction attrs arbitrary: st) (simp_all add: checkAttribute_keeps_fail)

lemma checkRequired_keeps_fail:
  "NodeAnalysisResult.Status a = StatusFail \<Longrightarrow>
   NodeAnalysisResult.Status (checkRequired seen e a) = StatusFail"
  by (simp add: checkRequired_def Let_def)

lemma fold_checkRequired_keeps_fail:
  "NodeAnalysisResult.Status a = StatusFail \<Longrightarrow>
   NodeAnalysisResult.Status (fold (checkRequired seen) es a) = StatusFail"
  by (induction es arbitrary: a) (simp_all add: checkRequired_keeps_fail)

lemma validateAttributes_keeps_fail:
  "NodeAnalysisResult.Status a = StatusFail \<Longrightarrow>
   NodeAnalysisResult.Status (validateAttributes n v spec a) = StatusFail"
  by (simp add: validateAttributes_def Let_def fold_checkAttribute_keeps_fail
      fold_checkRequired_keeps_fail split: option.splits)

lemma mergeAnalysis_keeps_fail:
  "failedIn nr c \<Longrightarrow> failedIn (mergeAnalysis nr an) c"
  by (auto simp: failedIn_def mergeAnalysis_def Let_def split: option.splits)

lemma mergeAnalysis_existing:
  assumes "map_of (Analyses nr) (NodeAnalysisResult.Category an) = Some ex"
  shows "\<exists>m. map_of (Analyses (mergeAnalysis nr an)) (NodeAnalysisResult.Category an) = Some m
     \<and> NodeAnalysisResult.Attributes m
         = NodeAnalysisResult.Attributes ex @ NodeAnalysisResult.Attributes an
     \<and> (NodeAnalysisResult.Status ex = StatusFail \<or> NodeAnalysisResult.Status an = StatusFail
          \<longrightarrow> NodeAnalysisResult.Status m = StatusFail)"
  using assms by (simp add: mergeAnalysis_def Let_def)

lemma customStep_keeps_fail: "failedIn nr c \<Longrightarrow> failedIn (customStep n v f nr) c"
  by (simp add: customStep_def mergeAnalysis_keeps_fail split: option.splits)

lemma httpStep_keeps_fail: "failedIn nr c \<Longrightarrow> failedIn (httpStep ctx cl n v f nr) c"
  by (simp add: httpStep_def Let_def mergeAnalysis_keeps_fail split: option.splits)

lemma applyCustomValidators_keeps_fail:
  "failedIn nr c \<Longrightarrow> failedIn (applyCustomValidators g nr n v) c"
proof -
  have "failedIn r c \<Longrightarrow> failedIn (fold (customStep n v) vs r) c" for vs r
    by (induction vs arbitrary: r) (simp_all add: customStep_keeps_fail)
  then show "failedIn nr c \<Longrightarrow> failedIn (applyCustomValidators g nr n v) c"
    by (simp add: applyCustomValidators_def)
qed

lemma applyHTTPValidators_keeps_fail:
  "failedIn nr c \<Longrightarrow> failedIn (applyHTTPValidators lib g nr n v cfg) c"
proof -
  have "failedIn r c \<Longrightarrow> failedIn (fold (httpStep ctx cl n v) vs r) c" for vs r ctx cl
    by (induction vs arbitrary: r) (simp_all add: httpStep_keeps_fail)
  then show "failedIn nr c \<Longrightarrow> failedIn (applyHTTPValidators lib g nr n v cfg) c"
    by (simp add: applyHTTPValidators_def Let_def)
qed

lemma addAnalysis_keeps_fail: "failedIn nr c \<Longrightarrow> failedIn (fst (addAnalysis nr c')) c"
  by (auto simp: failedIn_def addAnalysis_def Let_def update_conv' split: option.splits)

text \<open>
  Claim C4. Every operation of a validation pass on a bucket keeps a \<open>fail\<close> status:
  \<open>markFailure\<close> always leaves the status \<open>fail\<close>; the structural and the attribute checks
  keep a failed bucket failed; merging a hook's result, running the registered custom or
  HTTP validators, and asking for a bucket again keep every failed bucket of the node
  failed. When a hook's result lands in a category that already has a bucket, the merged
  bucket has the attribute results of both, the earlier ones first, and it is failed if
  either contribution is.
\<close>

theorem fail_status_never_reverts:
  "NodeAnalysisResult.Status (markFailure a rs) = StatusFail
   \<and> (NodeAnalysisResult.Status a = StatusFail \<longrightarrow>
        NodeAnalysisResult.Status (structuralChecks name v spec ps pau a) = StatusFail
        \<and> NodeAnalysisResult.Status (validateAttributes n v spec a) = StatusFail)
   \<and> (failedIn nr c \<longrightarrow>
        failedIn (mergeAnalysis nr an) c
        \<and> failedIn (applyCustomValidators g nr n v) c
        \<and> failedIn (applyHTTPValidators lib g nr n v cfg) c
        \<and> failedIn (fst (addAnalysis nr c')) c)
   \<and> (\<forall>ex. map_of (Analyses nr) (NodeAnalysisResult.Category an) = Some ex \<longrightarrow>
        (\<exists>m. map_of (Analyses (mergeAnalysis nr an)) (NodeAnalysisResult.Category an) = Some m
          \<and> NodeAnalysisResult.Attributes m
              = NodeAnalysisResult.Attributes ex @ NodeAnalysisResult.Attributes an
          \<and> (NodeAnalysisResult.Status ex = StatusFail
               \<or> NodeAnalysisResult.Status an = StatusFail
              \<longrightarrow> NodeAnalysisResult.Status m = StatusFail)))"
  using structuralChecks_keeps_fail validateAttributes_keeps_fail mergeAnalysis_keeps_fail
    applyCustomValidators_keeps_fail applyHTTPValidators_keeps_fail addAnalysis_keeps_fail
    mergeAnalysis_existing
  by (intro conjI impI allI) simp_all

theorem fail_status_never_reverts_witness:
  "failedIn sampleResult CustomAnalysisCategory
   \<and> map_of (Analyses sampleResult) (NodeAnalysisResult.Category samplePassed) = Some sampleFailed
   \<and> failedIn (mergeAnalysis sampleResult samplePassed) CustomAnalysisCategory
   \<and> (\<exists>m. map_of (Analyses (mergeAnalysis sampleResult samplePassed)) CustomAnalysisCategory
            = Some m
          \<and> length (NodeAnalysisResult.Attributes m) = 1
          \<and> NodeAnalysisResult.Status m = StatusFail)"
proof -
  have h1: "failedIn sampleResult CustomAnalysisCategory"
    by (simp add: failedIn_def sampleResult_def sampleFailed_def failedCustom_def)
  have h2: "map_of (Analyses sampleResult) (NodeAnalysisResult.Category samplePassed)
              = Some sampleFailed"
    by (simp add: sampleResult_def samplePassed_def)
  have h3: "NodeAnalysisResult.Status sampleFailed = StatusFail"
    by (simp add: sampleFailed_def failedCustom_def)
  have cat: "NodeAnalysisResult.Category samplePassed = CustomAnalysisCategory"
    by (simp add: samplePassed_def)
  have att: "NodeAnalysisResult.Attributes sampleFailed = []"
    "length (NodeAnalysisResult.Attributes samplePassed) = 1"
    by (simp_all add: sampleFailed_def failedCustom_def samplePassed_def)
  from fail_status_never_reverts [of sampleFailed "[]" "''MediaFile''" "''4.2''" None None False
      "GenericNode \<lparr>Space = [], Local = ''MediaFile''\<rparr> [] [] []" sampleResult
      CustomAnalysisCategory samplePassed sampleGlobals sampleLib
      "defaultConfig sampleGlobals" IABAnalysisCategory]
    h1 h2 h3 cat att
  show ?thesis by auto
qed

section \<open>Category summaries\<close>

lemma countInto_Nil [simp]: "countInto s [] = s"
  by (simp add: countInto_def)

lemma cap_arith: "5 - (a + p) = 5 - (a + min p (5 - a))" for a p :: nat
  by arith

lemma countInto_append: "countInto s (xs @ ys) = countInto (countInto s xs) ys"
proof -
  have r: "CategorySummary.Reasons (countInto s (xs @ ys))
             = CategorySummary.Reasons (countInto (countInto s xs) ys)"
    by (simp add: countInto_def cap_arith [symmetric])
  have st: "CategorySummary.Status (countInto s (xs @ ys))
             = CategorySummary.Status (countInto (countInto s xs) ys)"
    by (auto simp: countInto_def list_ex_iff)
  have rest: "CategorySummary.Category (countInto s (xs @ ys))
               = CategorySummary.Category (countInto (countInto s xs) ys)"
    "TotalNodes (countInto s (xs @ ys)) = TotalNodes (countInto (countInto s xs) ys)"
    "FailingNodes (countInto s (xs @ ys)) = FailingNodes (countInto (countInto s xs) ys)"
    by (simp_all add: countInto_def)
  show ?thesis
    using r st rest by (simp add: countInto_def)
qed

lemma visit_map_of:
  "map_of (visit (k, b) s) c
     = (if c = k then Some (countInto (startFrom k (map_of s k)) [b]) else map_of s c)"
  by (simp add: visit_def Let_def update_conv' countInto_def startFrom_def freshSummary_def
      failed_def split: option.splits)

lemma fold_visit_other:
  "c \<notin> fst ` set an \<Longrightarrow> map_of (fold visit an s) c = map_of s c"
  by (induction an arbitrary: s) (auto simp: visit_map_of)

lemma fold_visit_map_of:
  "distinct (map fst an) \<Longrightarrow>
   map_of (fold visit an s) c
     = (case map_of an c of None \<Rightarrow> map_of s c
        | Some b \<Rightarrow> Some (countInto (startFrom c (map_of s c)) [b]))"
proof (induction an arbitrary: s)
  case Nil
  then show ?case by simp
next
  case (Cons e an)
  obtain k b where e: "e = (k, b)" by (cases e)
  show ?case
  proof (cases "c = k")
    case True
    with Cons.prems e have "c \<notin> fst ` set an" by auto
    then show ?thesis using True e by (simp add: fold_visit_other visit_map_of)
  next
    case False
    with Cons e show ?thesis by (simp add: visit_map_of split: option.splits)
  qed
qed

lemma afterBuckets_append:
  "afterBuckets c (afterBuckets c so xs) ys = afterBuckets c so (xs @ ys)"
  by (simp add: afterBuckets_def countInto_append startFrom_def)

lemma fold_walk_children:
  assumes "\<And>x s. x \<in> set ch \<Longrightarrow>
             map_of (walk x s) c = afterBuckets c (map_of s c) (buckets c x)"
  shows "map_of (fold (\<lambda>x s. walk x s) ch s) c
           = afterBuckets c (map_of s c) (concat (map (buckets c) ch))"
  using assms
proof (induction ch arbitrary: s)
  case Nil
  then show ?case by (simp add: afterBuckets_def)
next
  case (Cons x ch)
  then show ?case by (simp add: afterBuckets_append)
qed

lemma walk_map_of:
  "wfResult r \<Longrightarrow> map_of (walk r s) c = afterBuckets c (map_of s c) (buckets c r)"
proof (induction r arbitrary: s)
  case (NodeResult n vs an ch)
  have d: "distinct (map fst an)" using NodeResult.prems by simp
  have ih: "\<And>x s. x \<in> set ch \<Longrightarrow>
              map_of (walk x s) c = afterBuckets c (map_of s c) (buckets c x)"
    using NodeResult.IH NodeResult.prems by simp
  have own: "map_of (fold visit an s) c
      = afterBuckets c (map_of s c) (case map_of an c of None \<Rightarrow> [] | Some b \<Rightarrow> [b])"
    by (simp add: fold_visit_map_of [OF d] afterBuckets_def split: option.splits)
  show ?case
    by (simp add: fold_walk_children [OF ih] own afterBuckets_append)
qed

lemma afterBuckets_None: "afterBuckets c None bs = summaryOf c bs"
  by (simp add: afterBuckets_def summaryOf_def countInto_def startFrom_def freshSummary_def)

text \<open>
  What \<open>summarizeCategories\<close> computes, on any result tree and for any category, from
  the buckets of that category in pre-order: there is a summary exactly if some node has
  a bucket in the category; it counts those nodes and the failed ones among them; its
  status is \<open>fail\<close> exactly if one of them failed; and of the failed ones it keeps the
  first five non-empty values of the field \<open>Reason\<close>. The list \<open>Reasons\<close> of a bucket is
  not read.
\<close>

lemma summarizeCategories_preorder:
  "wfResult r \<Longrightarrow> map_of (summarizeCategories (Some r)) c = summaryOf c (buckets c r)"
  by (simp add: summarizeCategories_def walk_map_of afterBuckets_None)

lemma summarizeCategories_preorder_sample:
  "wfResult sampleTree
   \<and> map_of (summarizeCategories (Some sampleTree)) IABAnalysisCategory
       = Some \<lparr>Category = IABAnalysisCategory, TotalNodes = 8, FailingNodes = 7,
               Status = StatusFail, Reasons = [''b'', ''c'', ''d'', ''e'', ''f'']\<rparr>
   \<and> map_of (summarizeCategories (Some sampleTree)) CustomAnalysisCategory = None"
proof -
  have wf: "wfResult sampleTree"
    by (simp add: sampleTree_def leaf_def)
  have b: "summaryOf IABAnalysisCategory (buckets IABAnalysisCategory sampleTree)
       = Some \<lparr>Category = IABAnalysisCategory, TotalNodes = 8, FailingNodes = 7,
               Status = StatusFail, Reasons = [''b'', ''c'', ''d'', ''e'', ''f'']\<rparr>"
    by (simp add: sampleTree_def leaf_def leafBucket_def summaryOf_def failed_def
        StatusFail_def StatusPass_def)
  have n: "summaryOf CustomAnalysisCategory (buckets CustomAnalysisCategory sampleTree) = None"
    by (simp add: sampleTree_def leaf_def summaryOf_def IABAnalysisCategory_def
        CustomAnalysisCategory_def)
  show ?thesis
    using wf b n summarizeCategories_preorder [OF wf, of IABAnalysisCategory]
      summarizeCategories_preorder [OF wf, of CustomAnalysisCategory]
    by simp
qed

section \<open>The result of one node\<close>

lemma storeAnalysis_sel [simp]:
  "NodeResult.Node (storeAnalysis nr c a) = NodeResult.Node nr"
  "NodeResult.Children (storeAnalysis nr c a) = NodeResult.Children nr"
  "NodeResult.VersionSupport (storeAnalysis nr c a) = NodeResult.VersionSupport nr"
  by (simp_all add: storeAnalysis_def)

lemma mergeAnalysis_sel [simp]:
  "NodeResult.Node (mergeAnalysis nr an) = NodeResult.Node nr"
  "NodeResult.Children (mergeAnalysis nr an) = NodeResult.Children nr"
  "NodeResult.VersionSupport (mergeAnalysis nr an) = NodeResult.VersionSupport nr"
  by (simp_all add: mergeAnalysis_def Let_def split: option.splits)

lemma customStep_sel [simp]:
  "NodeResult.Node (customStep n v f nr) = NodeResult.Node nr"
  "NodeResult.Children (customStep n v f nr) = NodeResult.Children nr"
  "NodeResult.VersionSupport (customStep n v f nr) = NodeResult.VersionSupport nr"
  by (simp_all add: customStep_def split: option.splits)

lemma httpStep_sel [simp]:
  "NodeResult.Node (httpStep ctx cl n v f nr) = NodeResult.Node nr"
  "NodeResult.Children (httpStep ctx cl n v f nr) = NodeResult.Children nr"
  "NodeResult.VersionSupport (httpStep ctx cl n v f nr) = NodeResult.VersionSupport nr"
  by (simp_all add: httpStep_def Let_def split: option.splits)

lemma fold_customStep_sel [simp]:
  "NodeResult.Node (fold (customStep n v) fs nr) = NodeResult.Node nr"
  "NodeResult.Children (fold (customStep n v) fs nr) = NodeResult.Children nr"
  "NodeResult.VersionSupport (fold (customStep n v) fs nr) = NodeResult.VersionSupport nr"
  by (induction fs arbitrary: nr) simp_all

lemma fold_httpStep_sel [simp]:
  "NodeResult.Node (fold (httpStep ctx cl n v) fs nr) = NodeResult.Node nr"
  "NodeResult.Children (fold (httpStep ctx cl n v) fs nr) = NodeResult.Children nr"
  "NodeResult.VersionSupport (fold (httpStep ctx cl n v) fs nr) = NodeResult.VersionSupport nr"
  by (induction fs arbitrary: nr) simp_all

lemma runHooks_sel [simp]:
  "NodeResult.Node (runHooks lib g cfg n v nr) = NodeResult.Node nr"
  "NodeResult.Children (runHooks lib g cfg n v nr) = NodeResult.Children nr"
  "NodeResult.VersionSupport (runHooks lib g cfg n v nr) = NodeResult.VersionSupport nr"
  by (simp_all add: runHooks_def Let_def applyCustomValidators_def applyHTTPValidators_def)

lemma validateNode_eq:
  "validateNode lib g n version cfg spec parentSpec pau
     = runHooks lib g cfg n version
         (NodeResult (localName n) (case spec of None \<Rightarrow> [] | Some sp \<Rightarrow> NodeSpec.Versions sp)
            [(IABAnalysisCategory, checksBucket n version spec parentSpec pau)] [])"
  by (simp add: validateNode_def runHooks_def checksBucket_def addAnalysis_def storeAnalysis_def
      passBucket_def Let_def)

lemma validateNodeRecursive_eq:
  "validateNodeRecursive lib g n version cfg spec parentSpec pau
     = (let r = validateNode lib g n version cfg spec parentSpec pau
        in NodeResult (NodeResult.Node r) (NodeResult.VersionSupport r) (Analyses r)
             (map (\<lambda>c. validateNodeRecursive lib g c version cfg
                            (node (catalog cfg) (localName c)) spec (childAllows spec pau))
                (genericNode.Children n)))"
  by (cases n) (simp add: Let_def validateNode_eq)

lemma Analyses_validateNodeRecursive:
  "Analyses (validateNodeRecursive lib g n version cfg spec parentSpec pau)
     = Analyses (validateNode lib g n version cfg spec parentSpec pau)"
  by (cases n) (simp add: Let_def)

subsection \<open>Hooks only add to a bucket\<close>

lemma grows_refl: "map_of (Analyses nr) c = Some b \<Longrightarrow> grows b nr c"
  by (simp add: grows_def)

lemma markFailure_Reasons:
  "set (NodeAnalysisResult.Reasons a) \<subseteq> set (NodeAnalysisResult.Reasons (markFailure a rs))"
  by (auto simp: markFailure_def Let_def)

lemma mergeAnalysis_grows:
  assumes "grows b nr c"
  shows "grows b (mergeAnalysis nr an) c"
proof -
  obtain b1 where m: "map_of (Analyses nr) c = Some b1"
    and p: "prefix (NodeAnalysisResult.Attributes b) (NodeAnalysisResult.Attributes b1)"
    and s: "NodeAnalysisResult.Status b = StatusFail
              \<longrightarrow> NodeAnalysisResult.Status b1 = StatusFail"
    and r: "set (NodeAnalysisResult.Reasons b) \<subseteq> set (NodeAnalysisResult.Reasons b1)"
    using assms by (cases "map_of (Analyses nr) c") (simp_all add: grows_def)
  show ?thesis
  proof (cases "NodeAnalysisResult.Category an = c")
    case False
    then have "map_of (Analyses (mergeAnalysis nr an)) c = Some b1"
      using m by (simp add: mergeAnalysis_def Let_def split: option.splits)
    with p s r show ?thesis by (simp add: grows_def)
  next
    case True
    define b2 where "b2 = b1\<lparr>NodeAnalysisResult.Attributes :=
        NodeAnalysisResult.Attributes b1 @ NodeAnalysisResult.Attributes an\<rparr>"
    define b3 where "b3 = (if NodeAnalysisResult.Status an = StatusFail
        then markFailure b2 (NodeAnalysisResult.Reasons an) else b2)"
    have e: "map_of (Analyses (mergeAnalysis nr an)) c = Some b3"
      using m True by (simp add: mergeAnalysis_def Let_def b2_def b3_def)
    have p2: "prefix (NodeAnalysisResult.Attributes b) (NodeAnalysisResult.Attributes b3)"
      using p by (simp add: b3_def b2_def prefix_prefix)
    have s2: "NodeAnalysisResult.Status b = StatusFail
                \<longrightarrow> NodeAnalysisResult.Status b3 = StatusFail"
      using s by (simp add: b3_def b2_def)
    have "set (NodeAnalysisResult.Reasons b2) \<subseteq> set (NodeAnalysisResult.Reasons b3)"
      using markFailure_Reasons [of b2] by (simp add: b3_def)
    then have r2: "set (NodeAnalysisResult.Reasons b) \<subseteq> set (NodeAnalysisResult.Reasons b3)"
      using r by (simp add: b2_def subset_trans)
    from e p2 s2 r2 show ?thesis by (simp add: grows_def)
  qed
qed

lemma customStep_grows: "grows b nr c \<Longrightarrow> grows b (customStep n v f nr) c"
  by (simp add: customStep_def mergeAnalysis_grows split: option.splits)

lemma httpStep_grows: "grows b nr c \<Longrightarrow> grows b (httpStep ctx cl n v f nr) c"
  by (simp add: httpStep_def Let_def mergeAnalysis_grows split: option.splits)

lemma fold_customStep_grows: "grows b nr c \<Longrightarrow> grows b (fold (customStep n v) fs nr) c"
  by (induction fs arbitrary: nr) (simp_all add: customStep_grows)

lemma fold_httpStep_grows: "grows b nr c \<Longrightarrow> grows b (fold (httpStep ctx cl n v) fs nr) c"
  by (induction fs arbitrary: nr) (simp_all add: httpStep_grows)

lemma runHooks_grows: "grows b nr c \<Longrightarrow> grows b (runHooks lib g cfg n v nr) c"
  by (simp add: runHooks_def Let_def applyCustomValidators_def applyHTTPValidators_def
      fold_customStep_grows fold_httpStep_grows)

lemma runHooks_off: "\<not> runCustom cfg \<Longrightarrow> \<not> runHTTP cfg \<Longrightarrow> runHooks lib g cfg n v nr = nr"
  by (simp add: runHooks_def)

lemma validateNode_grows:
  "grows (checksBucket n version spec parentSpec pau)
     (validateNode lib g n version cfg spec parentSpec pau) IABAnalysisCategory"
  by (simp add: validateNode_eq runHooks_grows grows_refl)

section \<open>Attribute results\<close>

lemma checkAttribute_fst:
  "fst (checkAttribute v spec attr st) = insert (Local (xml_Attr.Name attr)) (fst st)"
  by (simp add: checkAttribute_def Let_def split: option.splits)

lemma checkAttribute_Attributes:
  "NodeAnalysisResult.Attributes (snd (checkAttribute v spec attr st))
     = NodeAnalysisResult.Attributes (snd st) @ [attributeResult v spec attr]"
  by (simp add: checkAttribute_def attributeResult_def attribute_def Let_def addAttribute_def
      addReason_def failingAttribute_def split: option.splits)

lemma fold_checkAttribute_fst:
  "fst (fold (checkAttribute v spec) attrs st)
     = fst st \<union> set (map (\<lambda>a. Local (xml_Attr.Name a)) attrs)"
  by (induction attrs arbitrary: st) (simp_all add: checkAttribute_fst)

lemma fold_checkAttribute_Attributes:
  "NodeAnalysisResult.Attributes (snd (fold (checkAttribute v spec) attrs st))
     = NodeAnalysisResult.Attributes (snd st) @ map (attributeResult v spec) attrs"
  by (induction attrs arbitrary: st) (simp_all add: checkAttribute_Attributes)

lemma fold_checkRequired_Attributes:
  "NodeAnalysisResult.Attributes (fold (checkRequired seen) es a)
     = NodeAnalysisResult.Attributes a
        @ map missingResult
            (filter (\<lambda>s. Required s \<and> AttributeSpec.Name s \<notin> seen) (map snd es))"
  by (induction es arbitrary: a)
     (simp_all add: checkRequired_def Let_def addAttribute_def missingResult_def)

lemma validateAttributes_Attributes:
  "NodeAnalysisResult.Attributes (validateAttributes n v spec a)
     = NodeAnalysisResult.Attributes a @ expectedAttributes v spec n"
  by (simp add: validateAttributes_def Let_def fold_checkAttribute_Attributes
      fold_checkRequired_Attributes fold_checkAttribute_fst missingRequired_def presentNames_def
      expectedAttributes_def split: option.splits)

lemma attributeResult_Name [simp]:
  "AttributeResult.Name (attributeResult v spec attr) = Local (xml_Attr.Name attr)"
  by (simp add: attributeResult_def Let_def failingAttribute_def addReason_def
      split: option.splits)

lemma attributeResult_None_Status [simp]:
  "AttributeResult.Status (attributeResult v None attr) = StatusFail"
  by (simp add: attributeResult_def Let_def failingAttribute_def addReason_def)

lemma structuralChecks_Attributes [simp]:
  "NodeAnalysisResult.Attributes (structuralChecks name v spec ps pau a)
     = NodeAnalysisResult.Attributes a"
  by (simp add: structuralChecks_def Let_def split: option.splits)

lemma checksBucket_Attributes:
  "NodeAnalysisResult.Attributes (checksBucket n v spec ps False) = expectedAttributes v spec n"
  by (simp add: checksBucket_def Let_def validateAttributes_Attributes passBucket_def)

text \<open>
  Claim C5. For a node that is not under a node allowing unknown children, the attribute
  results of its spec-compliance bucket begin with one result for each attribute present
  on the node, in document order and named for it, followed by one failing result for
  each attribute spec that is required and whose name no attribute of the node carries,
  named for that spec; nothing else is there when no hook runs. Without a spec, the
  result of every attribute present is a failure.
\<close>

theorem attribute_results_of_node:
  "prefix (expectedAttributes v spec n)
     (iabAttributes (validateNodeRecursive lib g n v cfg spec ps False))
   \<and> (\<not> runCustom cfg \<and> \<not> runHTTP cfg \<longrightarrow>
        iabAttributes (validateNodeRecursive lib g n v cfg spec ps False)
          = expectedAttributes v spec n)
   \<and> map AttributeResult.Name (map (attributeResult v spec) (Attrs n)) = presentNames n
   \<and> (\<forall>a \<in> set (Attrs n). AttributeResult.Status (attributeResult v None a) = StatusFail)
   \<and> (\<forall>e \<in> set (NodeSpec.Attributes sp).
         Required (snd e) \<and> AttributeSpec.Name (snd e) \<notin> set (presentNames n) \<longrightarrow>
           missingResult (snd e) \<in> set (expectedAttributes v (Some sp) n)
           \<and> AttributeResult.Name (missingResult (snd e)) = AttributeSpec.Name (snd e)
           \<and> AttributeResult.Status (missingResult (snd e)) = StatusFail)
   \<and> (\<forall>r \<in> set (drop (length (Attrs n)) (expectedAttributes v (Some sp) n)).
         \<exists>e \<in> set (NodeSpec.Attributes sp).
           r = missingResult (snd e) \<and> Required (snd e)
           \<and> AttributeSpec.Name (snd e) \<notin> set (presentNames n))"
proof -
  have g: "grows (checksBucket n v spec ps False)
             (validateNodeRecursive lib g n v cfg spec ps False) IABAnalysisCategory"
    using validateNode_grows [of n v spec ps False lib g cfg]
    by (simp add: grows_def Analyses_validateNodeRecursive del: validateNodeRecursive.simps)
  then have 1: "prefix (expectedAttributes v spec n)
     (iabAttributes (validateNodeRecursive lib g n v cfg spec ps False))"
    by (auto simp: grows_def iabAttributes_def checksBucket_Attributes split: option.splits)
  have 2: "\<not> runCustom cfg \<and> \<not> runHTTP cfg \<longrightarrow>
        iabAttributes (validateNodeRecursive lib g n v cfg spec ps False)
          = expectedAttributes v spec n"
    by (simp add: iabAttributes_def Analyses_validateNodeRecursive validateNode_eq runHooks_off
        checksBucket_Attributes del: validateNodeRecursive.simps)
  have 3: "map AttributeResult.Name (map (attributeResult v spec) (Attrs n)) = presentNames n"
    by (simp add: presentNames_def)
  have 4: "\<forall>a \<in> set (Attrs n). AttributeResult.Status (attributeResult v None a) = StatusFail"
    by simp
  have 5: "\<forall>e \<in> set (NodeSpec.Attributes sp).
         Required (snd e) \<and> AttributeSpec.Name (snd e) \<notin> set (presentNames n) \<longrightarrow>
           missingResult (snd e) \<in> set (expectedAttributes v (Some sp) n)
           \<and> AttributeResult.Name (missingResult (snd e)) = AttributeSpec.Name (snd e)
           \<and> AttributeResult.Status (missingResult (snd e)) = StatusFail"
    by (auto simp: expectedAttributes_def missingRequired_def missingResult_def)
  have 6: "\<forall>r \<in> set (drop (length (Attrs n)) (expectedAttributes v (Some sp) n)).
         \<exists>e \<in> set (NodeSpec.Attributes sp).
           r = missingResult (snd e) \<and> Required (snd e)
           \<and> AttributeSpec.Name (snd e) \<notin> set (presentNames n)"
    by (auto simp: expectedAttributes_def missingRequired_def)
  from 1 2 3 4 5 6 show ?thesis by blast
qed

theorem attribute_results_of_node_witness:
  "\<not> runCustom quietConfig \<and> \<not> runHTTP quietConfig
   \<and> map (\<lambda>r. (AttributeResult.Name r, AttributeResult.Status r))
        (iabAttributes (validateNodeRecursive sampleLib sampleGlobals strayNode ''4.2'' quietConfig
                          (node sampleCatalog ''VAST'') None False))
       = [(''bogus'', StatusFail), (''bogus'', StatusFail), (''version'', StatusFail)]"
proof -
  have off: "\<not> runCustom quietConfig \<and> \<not> runHTTP quietConfig"
    by (simp add: quietConfig_def)
  have e: "map (\<lambda>r. (AttributeResult.Name r, AttributeResult.Status r))
             (expectedAttributes ''4.2'' (node sampleCatalog ''VAST'') strayNode)
       = [(''bogus'', StatusFail), (''bogus'', StatusFail), (''version'', StatusFail)]"
    by (simp add: expectedAttributes_def strayNode_def elem_def node_def sampleCatalog_def
        vastSpec_def attributeResult_def attrSpec_def missingRequired_def missingResult_def presentNames_def
        failingAttribute_def addReason_def Let_def)
  from attribute_results_of_node [of "''4.2''" "node sampleCatalog ''VAST''" strayNode
      sampleLib sampleGlobals quietConfig None] off e
  show ?thesis by simp
qed

section \<open>Subtrees under a node that allows unknown children\<close>

lemma checksBucket_exempt:
  "checksBucket n version spec parentSpec True = exemptBucket (localName n) version spec"
  by (simp add: checksBucket_def exemptBucket_def structuralChecks_def Let_def
      split: option.splits)

lemma exempt_subtree:
  "validateNodeRecursive lib g n version cfg spec parentSpec True
     = exemptResult lib g cfg version spec n"
proof (induction n arbitrary: spec parentSpec)
  case (GenericNode name attrs children content)
  have ch: "childAllows spec True" by (simp add: childAllows_def split: option.splits)
  have ih: "\<And>c sp ps. c \<in> set children \<Longrightarrow>
      validateNodeRecursive lib g c version cfg sp ps True = exemptResult lib g cfg version sp c"
    using GenericNode.IH by simp
  show ?case
    by (simp add: validateNodeRecursive_eq [of _ _ "GenericNode name attrs children content"]
        validateNode_eq checksBucket_exempt ch ih Let_def localName_def
        del: validateNodeRecursive.simps)
qed

text \<open>
  Claim C2, as stated, fails: a node under a node that allows unknown children is still
  checked against the version of the document when the catalog has a spec for its name.
  \<open>AdVerifications\<close>, placed in an \<open>Extension\<close> of a VAST 3.0 document, gets a failed
  spec-compliance bucket.
\<close>

theorem exempt_node_version_checked:
  "node sampleCatalog ''Extension'' = Some extensionSpec
   \<and> AllowUnknownChildren extensionSpec
   \<and> failedIn (validateNodeRecursive sampleLib sampleGlobals exemptNode ''3.0'' quietConfig
                 (node sampleCatalog ''AdVerifications'') (node sampleCatalog ''Extension'') True)
        IABAnalysisCategory
   \<and> map (NodeAnalysisResult.Reasons \<circ> snd)
        (Analyses (validateNodeRecursive sampleLib sampleGlobals exemptNode ''3.0'' quietConfig
                     (node sampleCatalog ''AdVerifications'') (node sampleCatalog ''Extension'')
                     True))
       = [[''node AdVerifications is not supported in VAST 3.0'']]"
  by (simp add: exemptNode_def elem_def validateNode_def quietConfig_def sampleCatalog_def
      extensionSpec_def adVerificationsSpec_def
      node_def addAnalysis_def storeAnalysis_def structuralChecks_def supports_def
      version40Plus_def markFailure_def Let_def localName_def childAllows_def failedIn_def
      StatusPass_def StatusFail_def)

text \<open>
  Claim C2, amended. The result of a node visited under the permission, and of all its
  descendants, is the one \<open>exemptResult\<close> describes: it depends neither on the parent's
  spec nor on the attributes; the bucket records no unrecognized node, no child
  relationship and no attribute; only a node with a spec of its own is checked against
  the version. The permission, once granted, reaches every child.
\<close>

theorem exempt_subtree_unchecked:
  "validateNodeRecursive lib g n version cfg spec parentSpec True
     = exemptResult lib g cfg version spec n
   \<and> (childAllows spec pau \<longrightarrow>
        NodeResult.Children (validateNodeRecursive lib g n version cfg spec parentSpec pau)
          = map (\<lambda>c. exemptResult lib g cfg version (node (catalog cfg) (localName c)) c)
              (genericNode.Children n))
   \<and> (AllowUnknownChildren sp \<longrightarrow> childAllows (Some sp) pau)
   \<and> (pau \<longrightarrow> childAllows spec pau)
   \<and> NodeAnalysisResult.Attributes (exemptBucket name version spec) = []
   \<and> (spec = None \<or> (\<exists>s. spec = Some s \<and> supports s version)
        \<longrightarrow> exemptBucket name version spec = passBucket)"
proof -
  have 2: "childAllows spec pau \<longrightarrow>
        NodeResult.Children (validateNodeRecursive lib g n version cfg spec parentSpec pau)
          = map (\<lambda>c. exemptResult lib g cfg version (node (catalog cfg) (localName c)) c)
              (genericNode.Children n)"
    by (simp add: validateNodeRecursive_eq [of _ _ n] Let_def exempt_subtree
        del: validateNodeRecursive.simps)
  have 3: "AllowUnknownChildren sp \<longrightarrow> childAllows (Some sp) pau"
    and 4: "pau \<longrightarrow> childAllows spec pau"
    by (simp_all add: childAllows_def split: option.splits)
  have 5: "NodeAnalysisResult.Attributes (exemptBucket name version spec) = []"
    by (simp add: exemptBucket_def passBucket_def split: option.splits)
  have 6: "spec = None \<or> (\<exists>s. spec = Some s \<and> supports s version)
        \<longrightarrow> exemptBucket name version spec = passBucket"
    by (auto simp: exemptBucket_def)
  from exempt_subtree 2 3 4 5 6 show ?thesis by blast
qed

theorem exempt_subtree_unchecked_witness:
  "validateNodeRecursive sampleLib sampleGlobals exemptNode ''4.2'' quietConfig
     (node sampleCatalog ''AdVerifications'') (node sampleCatalog ''Extension'') True
   = NodeResult ''AdVerifications'' version40Plus [(IABAnalysisCategory, passBucket)]
       [NodeResult ''Pixel'' [] [(IABAnalysisCategory, passBucket)] []]"
proof -
  have "exemptResult sampleLib sampleGlobals quietConfig ''4.2''
          (node sampleCatalog ''AdVerifications'') exemptNode
      = NodeResult ''AdVerifications'' version40Plus [(IABAnalysisCategory, passBucket)]
          [NodeResult ''Pixel'' [] [(IABAnalysisCategory, passBucket)] []]"
    by (simp add: exemptNode_def elem_def runHooks_def quietConfig_def sampleCatalog_def
        adVerificationsSpec_def node_def exemptBucket_def supports_def version40Plus_def
        Let_def localName_def)
  with exempt_subtree_unchecked [of sampleLib sampleGlobals exemptNode "''4.2''" quietConfig
      "node sampleCatalog ''AdVerifications''" "node sampleCatalog ''Extension''"]
  show ?thesis by simp
qed

section \<open>Attributes with the same local name\<close>

lemma attrValueIn_find:
  "attrValueIn attrs name = map_option Value (firstNamed name attrs)"
  by (induction attrs) (simp_all add: firstNamed_def)

text \<open>
  Claim C6, as stated, fails: the lookup returns the value of the first attribute with
  the local name, not of the last.
\<close>

theorem lookup_takes_first:
  "map (Local \<circ> xml_Attr.Name) (Attrs twiceNode) = [''version'', ''version'']
   \<and> map Value (Attrs twiceNode) = [''3.0'', ''4.2'']
   \<and> attrValue twiceNode ''version'' = Some ''3.0''
   \<and> attrValue twiceNode ''version'' \<noteq> Some (Value (last (Attrs twiceNode)))"
  by (simp add: twiceNode_def attrValue_def)

text \<open>
  Claim C6, amended. With several attributes of the same local name, the lookup returns
  the value of the first in document order. Each occurrence has an attribute result of
  its own, in document order. A required attribute counts as missing exactly if no
  attribute of the node carries its name; one occurrence is enough for it to be present.
\<close>

theorem lookup_first_report_each:
  "attrValue n name = map_option Value (firstNamed name (Attrs n))
   \<and> map AttributeResult.Name
        (take (length (Attrs n))
           (drop (length (NodeAnalysisResult.Attributes a))
              (NodeAnalysisResult.Attributes (validateAttributes n v spec a))))
       = presentNames n
   \<and> drop (length (NodeAnalysisResult.Attributes a) + length (Attrs n))
        (NodeAnalysisResult.Attributes (validateAttributes n v (Some sp) a))
       = map missingResult (missingRequired sp n)
   \<and> set (missingRequired sp n)
       = {s \<in> snd ` set (NodeSpec.Attributes sp).
            Required s \<and> AttributeSpec.Name s \<notin> set (presentNames n)}"
proof -
  have 1: "attrValue n name = map_option Value (firstNamed name (Attrs n))"
    by (simp add: attrValue_def attrValueIn_find)
  have 2: "map AttributeResult.Name
        (take (length (Attrs n))
           (drop (length (NodeAnalysisResult.Attributes a))
              (NodeAnalysisResult.Attributes (validateAttributes n v spec a))))
       = presentNames n"
    by (simp add: validateAttributes_Attributes expectedAttributes_def presentNames_def)
  have 3: "drop (length (NodeAnalysisResult.Attributes a) + length (Attrs n))
        (NodeAnalysisResult.Attributes (validateAttributes n v (Some sp) a))
       = map missingResult (missingRequired sp n)"
    by (simp add: validateAttributes_Attributes expectedAttributes_def)
  have 4: "set (missingRequired sp n)
       = {s \<in> snd ` set (NodeSpec.Attributes sp).
            Required s \<and> AttributeSpec.Name s \<notin> set (presentNames n)}"
    by (auto simp: missingRequired_def)
  from 1 2 3 4 show ?thesis by blast
qed

theorem lookup_first_report_each_witness:
  "attrValue twiceNode ''version'' = Some ''3.0''
   \<and> map AttributeResult.Name
        (NodeAnalysisResult.Attributes
           (validateAttributes twiceNode ''4.2'' (Some vastSpec) passBucket))
       = [''version'', ''version'']"
proof -
  define xs where "xs = NodeAnalysisResult.Attributes
                          (validateAttributes twiceNode ''4.2'' (Some vastSpec) passBucket)"
  have f: "firstNamed ''version'' (Attrs twiceNode)
             = Some \<lparr>xml_Attr.Name = \<lparr>Space = ''ext'', Local = ''version''\<rparr>, Value = ''3.0''\<rparr>"
    by (simp add: firstNamed_def twiceNode_def)
  have m: "missingRequired vastSpec twiceNode = []"
    by (simp add: missingRequired_def presentNames_def twiceNode_def attrSpec_def vastSpec_def)
  have p: "presentNames twiceNode = [''version'', ''version'']"
    "length (Attrs twiceNode) = 2" "length (NodeAnalysisResult.Attributes passBucket) = 0"
    by (simp_all add: presentNames_def twiceNode_def passBucket_def)
  note t = lookup_first_report_each [of twiceNode "''version''" passBucket "''4.2''"
      "Some vastSpec" vastSpec, folded xs_def, unfolded f m p]
  from t have a: "attrValue twiceNode ''version'' = Some ''3.0''" by simp
  from t have b: "map AttributeResult.Name (take 2 (drop 0 xs)) = [''version'', ''version'']"
    by blast
  from t have c: "drop (0 + 2) xs = map missingResult []" by blast
  have "map AttributeResult.Name xs
          = map AttributeResult.Name (take 2 xs) @ map AttributeResult.Name (drop 2 xs)"
    by (metis append_take_drop_id map_append)
  also have "\<dots> = [''version'', ''version'']"
    using b c by simp
  finally show ?thesis
    using a by (simp add: xs_def)
qed

section \<open>Failures of the parser and the shape of the result\<close>

lemma tokenLoop_error:
  "(\<exists>e. tokenLoop ts b = Inl e) \<longleftrightarrow> closesUnopened (length (stack b)) ts"
proof (induction ts arbitrary: b)
  case Nil
  then show ?case by simp
next
  case (Cons t ts)
  show ?case
  proof (cases t)
    case (EndElement n)
    then show ?thesis using Cons.IH by (auto split: list.splits)
  next
    case (CharData s)
    then show ?thesis using Cons.IH by (simp split: list.splits)
  qed (use Cons.IH in simp_all)
qed

lemma closeOpen_Some: "st \<noteq> [] \<Longrightarrow> closeOpen st \<noteq> None"
  by (induction st rule: closeOpen.induct) simp_all

lemma rootOf_None: "rootOf b = None \<longleftrightarrow> \<not> started b"
  using closeOpen_Some [of "stack b"]
  by (auto simp: rootOf_def started_def split: list.splits)

lemma tokenStep_started:
  "tokenStep t b = Inr b' \<Longrightarrow> started b' \<longleftrightarrow> started b \<or> isStart t"
  by (cases t) (auto simp: started_def split: list.splits if_splits)

lemma tokenLoop_started:
  "tokenLoop ts b = Inr b' \<Longrightarrow> started b' \<longleftrightarrow> started b \<or> list_ex isStart ts"
proof (induction ts arbitrary: b)
  case Nil
  then show ?case by simp
next
  case (Cons t ts)
  then obtain b1 where s: "tokenStep t b = Inr b1" and l: "tokenLoop ts b1 = Inr b'"
    by (auto split: sum.splits)
  from Cons.IH [OF l] tokenStep_started [OF s] show ?case by auto
qed

lemma buildNodeTree_error:
  "(\<exists>e. buildNodeTree dec raw = Inl e) \<longleftrightarrow>
     closesUnopened 0 (fst (dec raw)) \<or> snd (dec raw) \<noteq> None \<or> \<not> list_ex isStart (fst (dec raw))"
proof (cases "tokenLoop (fst (dec raw)) \<lparr>stack = [], root = None\<rparr>")
  case (Inl e)
  then have "closesUnopened 0 (fst (dec raw))"
    using tokenLoop_error [of "fst (dec raw)" "\<lparr>stack = [], root = None\<rparr>"] by auto
  with Inl show ?thesis by (simp add: buildNodeTree_def)
next
  case (Inr b)
  then have no: "\<not> closesUnopened 0 (fst (dec raw))"
    using tokenLoop_error [of "fst (dec raw)" "\<lparr>stack = [], root = None\<rparr>"] by auto
  have st: "started b \<longleftrightarrow> list_ex isStart (fst (dec raw))"
    using tokenLoop_started [OF Inr] by (simp add: started_def)
  show ?thesis
    using Inr no st rootOf_None [of b]
    by (auto simp: buildNodeTree_def split: option.splits)
qed

lemma resultShape_sel: "resultShape r = Shape (NodeResult.Node r) (map resultShape (NodeResult.Children r))"
  by (cases r) simp

lemma validateNode_Node:
  "NodeResult.Node (validateNode lib g n v cfg spec ps pau) = localName n"
  "NodeResult.Children (validateNode lib g n v cfg spec ps pau) = []"
  by (simp_all add: validateNode_eq)

lemma validateNodeRecursive_shape:
  "resultShape (validateNodeRecursive lib g n v cfg spec ps pau) = shapeOf n"
proof (induction n arbitrary: spec ps pau)
  case (GenericNode name attrs children content)
  then show ?case
    by (simp add: Let_def validateNode_Node localName_def)
qed

lemma addAnalysis_sel [simp]:
  "NodeResult.Node (fst (addAnalysis nr c)) = NodeResult.Node nr"
  "NodeResult.Children (fst (addAnalysis nr c)) = NodeResult.Children nr"
  by (simp_all add: addAnalysis_def Let_def split: option.splits)

lemma Validate_result:
  assumes "raw \<noteq> []" "buildNodeTree (xml_Decode lib) raw = Inr rootNode"
    "localName rootNode = ''VAST''" "attrValue rootNode ''version'' = Some vv"
    "TrimSpace vv \<noteq> []"
    "node (catalog (fold applyOption opts (defaultConfig g))) ''VAST'' = Some rootSpec"
  shows "Validate lib g raw opts
    = Inr \<lparr>ValidationResult.Version = TrimSpace vv,
           Root = finishRoot rootSpec (TrimSpace vv)
                    (validateNodeRecursive lib g rootNode (TrimSpace vv)
                       (fold applyOption opts (defaultConfig g)) (Some rootSpec) None False),
           Summaries = summarizeCategories (Some (finishRoot rootSpec (TrimSpace vv)
                    (validateNodeRecursive lib g rootNode (TrimSpace vv)
                       (fold applyOption opts (defaultConfig g)) (Some rootSpec) None False)))\<rparr>"
  using assms
  by (simp add: Validate_def Let_def finishRoot_def del: validateNodeRecursive.simps)

lemma finishRoot_shape: "resultShape (finishRoot sp v r) = resultShape r"
  by (simp add: finishRoot_def resultShape_sel [of "storeAnalysis _ _ _"] resultShape_sel [of r])

section \<open>An unsupported version\<close>







lemma validateNodeRecursive_grows:
  "grows (checksBucket n v spec ps pau) (validateNodeRecursive lib g n v cfg spec ps pau)
     IABAnalysisCategory"
  using validateNode_grows [of n v spec ps pau lib g cfg]
  by (simp add: grows_def Analyses_validateNodeRecursive del: validateNodeRecursive.simps)





section \<open>Normalizing the URL of an asset\<close>

lemma trim_sample:
  "TrimSpace ''http:/video.mp4'' = ''http:/video.mp4''"
  "TrimSpace ''  //cdn.example.com/video.mp4 '' = ''//cdn.example.com/video.mp4''"
  "TrimSpace ''https://cdn.example.com/video.mp4'' = ''https://cdn.example.com/video.mp4''"
  "TrimSpace ''video/mp4'' = ''video/mp4''"
  "TrimSpace ''video/mp4; codecs=avc1'' = ''video/mp4; codecs=avc1''"
  by (simp_all add: TrimSpace_def isSpaceRune_def spaceRunes_def)

text \<open>
  Claim C7, as stated, fails: a URL is rejected when it has no scheme or no host, not only
  when it has neither. \<open>http:/video.mp4\<close> is not empty, parses, has the scheme \<open>http\<close>
  and no host, and is rejected.
\<close>

theorem scheme_without_host_rejected:
  "normalizeProbeURL sampleLib ''http:/video.mp4'' = Inl (ErrMissingSchemeOrHost ''http:/video.mp4'')
   \<and> \<not> rejectedAsClaimed sampleLib ''http:/video.mp4''"
  by (simp add: normalizeProbeURL_def rejectedAsClaimed_def probeTarget_def trim_sample
      HasPrefix_def sampleLib_def sampleParse_def Let_def)

text \<open>
  Claim C7, amended. The normalization trims white space and puts \<open>https:\<close> before an
  input that begins with two slashes. It returns an error exactly if the trimmed input
  is empty, or does not parse, or parses to a URL without a scheme or without a host, or
  with a scheme other than \<open>http\<close> and \<open>https\<close>, a different error for each of the
  four; every other input yields the parsed URL rendered as a string.
\<close>

theorem normalize_rejects:
  "((\<exists>e. normalizeProbeURL lib raw = Inl e) \<longleftrightarrow> rejected lib raw)
   \<and> (normalizeProbeURL lib raw = Inl ErrMediaURLEmpty \<longleftrightarrow> TrimSpace raw = [])
   \<and> ((\<exists>e. normalizeProbeURL lib raw = Inl (ErrInvalidMediaURL raw e)) \<longleftrightarrow>
         TrimSpace raw \<noteq> [] \<and> (\<exists>e. url_Parse lib (probeTarget raw) = Inl e))
   \<and> (normalizeProbeURL lib raw = Inl (ErrMissingSchemeOrHost raw) \<longleftrightarrow>
         TrimSpace raw \<noteq> []
         \<and> (\<exists>p. url_Parse lib (probeTarget raw) = Inr p \<and> (Scheme p = [] \<or> Host p = [])))
   \<and> ((\<exists>s. normalizeProbeURL lib raw = Inl (ErrUnsupportedScheme s)) \<longleftrightarrow>
         TrimSpace raw \<noteq> []
         \<and> (\<exists>p. url_Parse lib (probeTarget raw) = Inr p \<and> Scheme p \<noteq> [] \<and> Host p \<noteq> []
                \<and> Scheme p \<noteq> ''http'' \<and> Scheme p \<noteq> ''https''))
   \<and> (\<forall>p. \<not> rejected lib raw \<and> url_Parse lib (probeTarget raw) = Inr p
          \<longrightarrow> normalizeProbeURL lib raw = Inr (url_String lib p))"
proof (cases "url_Parse lib (probeTarget raw)")
  case (Inl e)
  then show ?thesis
    by (auto simp: normalizeProbeURL_def rejected_def probeTarget_def Let_def)
next
  case (Inr p)
  then show ?thesis
    by (auto simp: normalizeProbeURL_def rejected_def probeTarget_def Let_def)
qed

theorem normalize_rejects_witness:
  "\<not> rejected sampleLib ''  //cdn.example.com/video.mp4 ''
   \<and> normalizeProbeURL sampleLib ''  //cdn.example.com/video.mp4 ''
       = Inr ''https://cdn.example.com/video.mp4''
   \<and> rejected sampleLib ''http:/video.mp4''
   \<and> normalizeProbeURL sampleLib ''http:/video.mp4''
       = Inl (ErrMissingSchemeOrHost ''http:/video.mp4'')"
proof -
  have t: "probeTarget ''  //cdn.example.com/video.mp4 '' = ''https://cdn.example.com/video.mp4''"
    "probeTarget ''http:/video.mp4'' = ''http:/video.mp4''"
    by (simp_all add: probeTarget_def trim_sample HasPrefix_def)
  have p: "url_Parse sampleLib ''https://cdn.example.com/video.mp4''
      = Inr \<lparr>Scheme = ''https'', Host = ''cdn.example.com'', Rest = ''/video.mp4''\<rparr>"
    "url_Parse sampleLib ''http:/video.mp4''
      = Inr \<lparr>Scheme = ''http'', Host = [], Rest = ''/video.mp4''\<rparr>"
    by (simp_all add: sampleLib_def sampleParse_def)
  have s: "url_String sampleLib \<lparr>Scheme = ''https'', Host = ''cdn.example.com'', Rest = ''/video.mp4''\<rparr>
      = ''https://cdn.example.com/video.mp4''"
    by (simp add: sampleLib_def sampleString_def)
  have r: "\<not> rejected sampleLib ''  //cdn.example.com/video.mp4 ''"
    "rejected sampleLib ''http:/video.mp4''"
    by (simp_all add: rejected_def t p trim_sample)
  from normalize_rejects [of sampleLib "''  //cdn.example.com/video.mp4 ''"]
    normalize_rejects [of sampleLib "''http:/video.mp4''"] t p s r trim_sample
  show ?thesis by auto
qed


section \<open>The probe\<close>






section \<open>Names of hooks\<close>





section \<open>The root element and the configuration in effect\<close>

lemma appendChild_sel [simp]:
  "genericNode.Name (appendChild p n) = genericNode.Name p"
  "Attrs (appendChild p n) = Attrs p"
  by (simp_all add: appendChild_def)

lemma appendContent_sel [simp]:
  "genericNode.Name (appendContent p s) = genericNode.Name p"
  "Attrs (appendContent p s) = Attrs p"
  by (simp_all add: appendContent_def)

lemma tokenStep_head:
  "tokenStep t b = Inr b' \<Longrightarrow>
   headOf b' = rootStart (length (stack b)) [t] (headOf b)
   \<and> length (stack b') = (case t of StartElement n a \<Rightarrow> Suc (length (stack b))
                           | EndElement n \<Rightarrow> length (stack b) - 1
                           | _ \<Rightarrow> length (stack b))"
  by (cases t) (auto simp: headOf_def split: list.splits if_splits)

lemma rootStart_append1:
  "rootStart d (t # ts) acc
     = rootStart (case t of StartElement n a \<Rightarrow> Suc d | EndElement n \<Rightarrow> d - 1 | _ \<Rightarrow> d) ts
         (rootStart d [t] acc)"
  by (cases t) simp_all

lemma tokenLoop_head:
  "tokenLoop ts b = Inr b' \<Longrightarrow> headOf b' = rootStart (length (stack b)) ts (headOf b)"
proof (induction ts arbitrary: b)
  case Nil
  then show ?case by simp
next
  case (Cons t ts)
  then obtain b1 where s: "tokenStep t b = Inr b1" and l: "tokenLoop ts b1 = Inr b'"
    by (auto split: sum.splits)
  from tokenStep_head [OF s] Cons.IH [OF l]
  show ?case by (subst rootStart_append1) simp
qed

lemma closeOpen_last:
  "st \<noteq> [] \<Longrightarrow>
   \<exists>r. closeOpen st = Some r \<and> genericNode.Name r = genericNode.Name (last st)
      \<and> Attrs r = Attrs (last st)"
  by (induction st rule: closeOpen.induct) auto

lemma rootOf_head:
  "rootOf b = Some r \<Longrightarrow> headOf b = Some (genericNode.Name r, Attrs r)"
  using closeOpen_last [of "stack b"]
  by (auto simp: rootOf_def headOf_def split: list.splits)

lemma buildNodeTree_root:
  assumes "buildNodeTree dec raw = Inr r"
  shows "rootStart 0 (fst (dec raw)) None = Some (genericNode.Name r, Attrs r)"
proof -
  from assms obtain b where l: "tokenLoop (fst (dec raw)) \<lparr>stack = [], root = None\<rparr> = Inr b"
    and r: "rootOf b = Some r"
    by (auto simp: buildNodeTree_def split: sum.splits option.splits)
  from tokenLoop_head [OF l] rootOf_head [OF r] show ?thesis
    by (simp add: headOf_def)
qed

lemma catalog_fold:
  "catalog (fold applyOption opts cfg)
     = (if chosenCatalogs opts = [] then catalog cfg else last (chosenCatalogs opts))"
proof (induction opts arbitrary: cfg rule: chosenCatalogs.induct)
  case 1
  then show ?case by simp
next
  case (2 c os)
  then show ?case by simp
qed simp_all

lemma runCustom_fold:
  "runCustom (fold applyOption opts cfg) \<longleftrightarrow> runCustom cfg \<and> DisableCustomValidators \<notin> set opts"
proof (induction opts arbitrary: cfg)
  case Nil
  then show ?case by simp
next
  case (Cons a opts)
  then show ?case by (cases a) (auto split: option.splits)
qed

lemma runHTTP_fold:
  "runHTTP (fold applyOption opts cfg) \<longleftrightarrow>
     runHTTP cfg \<and> DisableCustomValidators \<notin> set opts \<and> DisableHTTPValidators \<notin> set opts"
proof (induction opts arbitrary: cfg)
  case Nil
  then show ?case by simp
next
  case (Cons a opts)
  then show ?case by (cases a) (auto split: option.splits)
qed

lemma config_in_effect:
  "catalog (fold applyOption opts (defaultConfig g)) = catalogInEffect g opts"
  "runCustom (fold applyOption opts (defaultConfig g)) \<longleftrightarrow> DisableCustomValidators \<notin> set opts"
  "runHTTP (fold applyOption opts (defaultConfig g)) \<longleftrightarrow>
     DisableCustomValidators \<notin> set opts \<and> DisableHTTPValidators \<notin> set opts"
  by (simp_all add: catalog_fold runCustom_fold runHTTP_fold catalogInEffect_def defaultConfig_def)

lemma httpOptions_fold:
  "httpOptions (fold applyOption opts cfg)
     = (if chosenHTTPOptions opts = [] then httpOptions cfg else last (chosenHTTPOptions opts))"
proof (induction opts arbitrary: cfg)
  case Nil
  then show ?case by simp
next
  case (Cons a opts)
  then show ?case by (cases a) (auto split: option.splits)
qed

lemma httpOptions_default:
  "httpOptions (defaultConfig g) = \<lparr>Client = None, Timeout = 2 * 1000000000\<rparr>"
  by (simp add: defaultConfig_def)

lemma fold_applyOption: "fold applyOption opts (defaultConfig g) = configInEffect g opts"
  by (rule config.equality)
    (simp_all add: config_in_effect httpOptions_fold httpOptions_default configInEffect_def)

lemma Validate_Inl:
  "(\<exists>e. Validate lib g raw opts = Inl e) \<longleftrightarrow> callLevelError lib g raw opts"
proof (cases "buildNodeTree (xml_Decode lib) raw")
  case (Inl e)
  then show ?thesis
    using buildNodeTree_error [of "xml_Decode lib" raw]
    by (auto simp: Validate_def callLevelError_def)
next
  case (Inr rootNode)
  then have ok: "\<not> (closesUnopened 0 (fst (xml_Decode lib raw)) \<or> snd (xml_Decode lib raw) \<noteq> None
      \<or> \<not> list_ex isStart (fst (xml_Decode lib raw)))"
    using buildNodeTree_error [of "xml_Decode lib" raw] by auto
  have rs: "rootStart 0 (fst (xml_Decode lib raw)) None
              = Some (genericNode.Name rootNode, Attrs rootNode)"
    using buildNodeTree_root [OF Inr] .
  show ?thesis
    using Inr ok
    by (auto simp: Validate_def callLevelError_def rs declaredVersion_def attrValue_def
        attrValueIn_find localName_def node_def config_in_effect Let_def
        split: option.splits if_splits)
qed

section \<open>What the checks record\<close>

lemma markFailure_one:
  "m \<noteq> [] \<Longrightarrow> NodeAnalysisResult.Reasons (markFailure a [m]) = NodeAnalysisResult.Reasons a @ [m]"
  by (simp add: markFailure_def Let_def)

lemma markFailure_Reason [simp]:
  "NodeAnalysisResult.Reason (markFailure a rs) = NodeAnalysisResult.Reason a"
  by (simp add: markFailure_def Let_def)

lemma addAttribute_other [simp]:
  "NodeAnalysisResult.Reasons (addAttribute a r) = NodeAnalysisResult.Reasons a"
  "NodeAnalysisResult.Reason (addAttribute a r) = NodeAnalysisResult.Reason a"
  "NodeAnalysisResult.Category (addAttribute a r) = NodeAnalysisResult.Category a"
  by (simp_all add: addAttribute_def)

lemma attributeResult_Status:
  "AttributeResult.Status (attributeResult v spec attr)
     = (if AttributeResult.Reasons (attributeResult v spec attr) = [] then StatusPass
        else StatusFail)"
  by (auto simp: attributeResult_def Let_def failingAttribute_def addReason_def
      split: option.splits)

lemma checkAttribute_Reasons_eq:
  "NodeAnalysisResult.Reasons (snd (checkAttribute v spec attr st))
     = NodeAnalysisResult.Reasons (snd st) @ AttributeResult.Reasons (attributeResult v spec attr)"
  by (simp add: checkAttribute_def attributeResult_def attribute_def Let_def markFailure_one
      failingAttribute_def addReason_def split: option.splits)

lemma checkAttribute_Status_eq:
  "NodeAnalysisResult.Status (snd (checkAttribute v spec attr st))
     = (if AttributeResult.Reasons (attributeResult v spec attr) = []
        then NodeAnalysisResult.Status (snd st) else StatusFail)"
  by (simp add: checkAttribute_def attributeResult_def attribute_def Let_def
      failingAttribute_def addReason_def split: option.splits)

lemma checkAttribute_rest [simp]:
  "NodeAnalysisResult.Category (snd (checkAttribute v spec attr st))
     = NodeAnalysisResult.Category (snd st)"
  "NodeAnalysisResult.Reason (snd (checkAttribute v spec attr st))
     = NodeAnalysisResult.Reason (snd st)"
  by (simp_all add: checkAttribute_def Let_def split: option.splits)

lemma fold_checkAttribute_eq:
  "NodeAnalysisResult.Reasons (snd (fold (checkAttribute v spec) attrs st))
     = NodeAnalysisResult.Reasons (snd st)
        @ concat (map AttributeResult.Reasons (map (attributeResult v spec) attrs))
   \<and> NodeAnalysisResult.Status (snd (fold (checkAttribute v spec) attrs st))
     = (if concat (map AttributeResult.Reasons (map (attributeResult v spec) attrs)) = []
        then NodeAnalysisResult.Status (snd st) else StatusFail)
   \<and> NodeAnalysisResult.Category (snd (fold (checkAttribute v spec) attrs st))
     = NodeAnalysisResult.Category (snd st)
   \<and> NodeAnalysisResult.Reason (snd (fold (checkAttribute v spec) attrs st))
     = NodeAnalysisResult.Reason (snd st)"
proof (induction attrs arbitrary: st)
  case Nil
  then show ?case by simp
next
  case (Cons a attrs)
  show ?case
    using Cons.IH [of "checkAttribute v spec a st"]
    by (simp add: checkAttribute_Reasons_eq checkAttribute_Status_eq)
qed

lemma checkRequired_eq:
  "NodeAnalysisResult.Reasons (checkRequired seen e a)
     = NodeAnalysisResult.Reasons a
        @ (if Required (snd e) \<and> AttributeSpec.Name (snd e) \<notin> seen
           then AttributeResult.Reasons (missingResult (snd e)) else [])
   \<and> NodeAnalysisResult.Status (checkRequired seen e a)
     = (if Required (snd e) \<and> AttributeSpec.Name (snd e) \<notin> seen then StatusFail
        else NodeAnalysisResult.Status a)
   \<and> NodeAnalysisResult.Category (checkRequired seen e a) = NodeAnalysisResult.Category a
   \<and> NodeAnalysisResult.Reason (checkRequired seen e a) = NodeAnalysisResult.Reason a"
  by (simp add: checkRequired_def Let_def markFailure_one missingResult_def)

lemma fold_checkRequired_eq:
  "NodeAnalysisResult.Reasons (fold (checkRequired seen) es a)
     = NodeAnalysisResult.Reasons a
        @ concat (map AttributeResult.Reasons
            (map missingResult
               (filter (\<lambda>s. Required s \<and> AttributeSpec.Name s \<notin> seen) (map snd es))))
   \<and> NodeAnalysisResult.Status (fold (checkRequired seen) es a)
     = (if filter (\<lambda>s. Required s \<and> AttributeSpec.Name s \<notin> seen) (map snd es) = []
        then NodeAnalysisResult.Status a else StatusFail)
   \<and> NodeAnalysisResult.Category (fold (checkRequired seen) es a) = NodeAnalysisResult.Category a
   \<and> NodeAnalysisResult.Reason (fold (checkRequired seen) es a) = NodeAnalysisResult.Reason a"
proof (induction es arbitrary: a)
  case Nil
  then show ?case by simp
next
  case (Cons e es)
  show ?case
    using Cons.IH [of "checkRequired seen e a"] checkRequired_eq [of seen e a]
    by (auto simp: filter_empty_conv)
qed

lemma missing_reasons_Nil:
  "concat (map AttributeResult.Reasons (map missingResult xs)) = [] \<longleftrightarrow> xs = []"
  by (cases xs) (simp_all add: missingResult_def)

lemma validateAttributes_eq:
  "NodeAnalysisResult.Reasons (validateAttributes n v spec a)
     = NodeAnalysisResult.Reasons a
        @ concat (map AttributeResult.Reasons (expectedAttributes v spec n))
   \<and> NodeAnalysisResult.Status (validateAttributes n v spec a)
     = (if concat (map AttributeResult.Reasons (expectedAttributes v spec n)) = []
        then NodeAnalysisResult.Status a else StatusFail)
   \<and> NodeAnalysisResult.Category (validateAttributes n v spec a) = NodeAnalysisResult.Category a
   \<and> NodeAnalysisResult.Reason (validateAttributes n v spec a) = NodeAnalysisResult.Reason a"
proof (cases spec)
  case None
  then show ?thesis
    using fold_checkAttribute_eq [of v spec "Attrs n" "({}, a)"]
    by (simp add: validateAttributes_def Let_def expectedAttributes_def)
next
  case (Some sp)
  define st where "st = fold (checkAttribute v spec) (Attrs n) ({}, a)"
  have seen: "fst st = set (presentNames n)"
    by (simp add: st_def fold_checkAttribute_fst presentNames_def)
  have va: "validateAttributes n v spec a = fold (checkRequired (fst st)) (NodeSpec.Attributes sp) (snd st)"
    by (simp add: validateAttributes_def Let_def Some st_def)
  have ex: "expectedAttributes v spec n
      = map (attributeResult v spec) (Attrs n) @ map missingResult (missingRequired sp n)"
    by (simp add: expectedAttributes_def Some)
  have mr: "missingRequired sp n
      = filter (\<lambda>s. Required s \<and> AttributeSpec.Name s \<notin> fst st) (map snd (NodeSpec.Attributes sp))"
    by (simp add: missingRequired_def seen)
  show ?thesis
    using fold_checkAttribute_eq [of v spec "Attrs n" "({}, a)"]
      fold_checkRequired_eq [of "fst st" "NodeSpec.Attributes sp" "snd st"]
      missing_reasons_Nil [of "missingRequired sp n"]
    unfolding va ex mr [symmetric] st_def [symmetric]
    by (simp add: mr [symmetric])
qed

lemma structuralChecks_eq:
  "NodeAnalysisResult.Reasons (structuralChecks name v spec ps pau a)
     = NodeAnalysisResult.Reasons a @ structuralReasons v spec ps pau name
   \<and> NodeAnalysisResult.Status (structuralChecks name v spec ps pau a)
     = (if structuralReasons v spec ps pau name = [] then NodeAnalysisResult.Status a
        else StatusFail)
   \<and> NodeAnalysisResult.Category (structuralChecks name v spec ps pau a)
     = NodeAnalysisResult.Category a
   \<and> NodeAnalysisResult.Reason (structuralChecks name v spec ps pau a)
     = NodeAnalysisResult.Reason a"
  by (simp add: structuralChecks_def structuralReasons_def supports_def child_def
      childSupports_def markFailure_one Let_def split: option.splits)

lemma checksBucket_fields:
  "NodeAnalysisResult.Reasons (checksBucket n v spec ps pau)
     = structuralReasons v spec ps pau (Local (genericNode.Name n))
        @ concat (map AttributeResult.Reasons (if pau then [] else expectedAttributes v spec n))"
  "NodeAnalysisResult.Status (checksBucket n v spec ps pau)
     = (if structuralReasons v spec ps pau (Local (genericNode.Name n))
            @ concat (map AttributeResult.Reasons
                (if pau then [] else expectedAttributes v spec n)) = []
        then StatusPass else StatusFail)"
  "NodeAnalysisResult.Category (checksBucket n v spec ps pau) = IABAnalysisCategory"
  "NodeAnalysisResult.Reason (checksBucket n v spec ps pau) = []"
  "NodeAnalysisResult.Attributes (checksBucket n v spec ps pau)
     = (if pau then [] else expectedAttributes v spec n)"
proof -
  define s where "s = structuralChecks (localName n) v spec ps pau passBucket"
  have s: "NodeAnalysisResult.Reasons s = structuralReasons v spec ps pau (Local (genericNode.Name n))"
    "NodeAnalysisResult.Status s
       = (if structuralReasons v spec ps pau (Local (genericNode.Name n)) = [] then StatusPass
          else StatusFail)"
    "NodeAnalysisResult.Category s = IABAnalysisCategory"
    "NodeAnalysisResult.Reason s = []"
    using structuralChecks_eq [of "localName n" v spec ps pau passBucket]
    by (simp_all add: s_def passBucket_def localName_def)
  have a: "NodeAnalysisResult.Attributes s = []"
    by (simp add: s_def structuralChecks_Attributes passBucket_def)
  have c: "checksBucket n v spec ps pau = (if \<not> pau then validateAttributes n v spec s else s)"
    by (simp add: checksBucket_def s_def)
  show "NodeAnalysisResult.Reasons (checksBucket n v spec ps pau)
     = structuralReasons v spec ps pau (Local (genericNode.Name n))
        @ concat (map AttributeResult.Reasons (if pau then [] else expectedAttributes v spec n))"
    using validateAttributes_eq [of n v spec s] by (simp add: c s)
  show "NodeAnalysisResult.Status (checksBucket n v spec ps pau)
     = (if structuralReasons v spec ps pau (Local (genericNode.Name n))
            @ concat (map AttributeResult.Reasons
                (if pau then [] else expectedAttributes v spec n)) = []
        then StatusPass else StatusFail)"
    using validateAttributes_eq [of n v spec s] by (simp add: c s)
  show "NodeAnalysisResult.Category (checksBucket n v spec ps pau) = IABAnalysisCategory"
    using validateAttributes_eq [of n v spec s] by (simp add: c s)
  show "NodeAnalysisResult.Reason (checksBucket n v spec ps pau) = []"
    using validateAttributes_eq [of n v spec s] by (simp add: c s)
  show "NodeAnalysisResult.Attributes (checksBucket n v spec ps pau)
     = (if pau then [] else expectedAttributes v spec n)"
    by (simp add: c a validateAttributes_Attributes)
qed

lemma checksBucket_expected:
  "checksBucket n v spec ps pau = expectedBucket v spec ps pau n"
  by (rule NodeAnalysisResult.equality)
    (simp_all add: checksBucket_fields expectedBucket_def)

section \<open>Failures of hooks\<close>

lemma mergeAnalysis_records:
  assumes "NodeAnalysisResult.Status a = StatusFail"
    and "NodeAnalysisResult.Attributes b = []"
    and "set (NodeAnalysisResult.Reasons b)
           \<subseteq> set (filter (\<lambda>reason. reason \<noteq> []) (NodeAnalysisResult.Reasons a))"
  shows "grows b (mergeAnalysis nr a) (NodeAnalysisResult.Category a)"
proof (cases "map_of (Analyses nr) (NodeAnalysisResult.Category a)")
  case None
  then show ?thesis
    using assms by (auto simp: grows_def mergeAnalysis_def)
next
  case (Some ex)
  then show ?thesis
    using assms by (auto simp: grows_def mergeAnalysis_def Let_def markFailure_def)
qed

lemma defaultCategory_sel [simp]:
  "NodeAnalysisResult.Category (defaultCategory a) = categoryOf a"
  "NodeAnalysisResult.Status (defaultCategory a) = NodeAnalysisResult.Status a"
  "NodeAnalysisResult.Reasons (defaultCategory a) = NodeAnalysisResult.Reasons a"
  by (simp_all add: defaultCategory_def categoryOf_def)

lemma customStep_records:
  assumes "f \<lparr>NodeContext.Node = Some n, NodeContext.Version = v\<rparr> = Some a"
  shows "reported a (customStep n v f nr)"
  using mergeAnalysis_records [of "defaultCategory a" "hookBucket a" nr] assms
  by (simp add: customStep_def hookBucket_def reported_def)

lemma reported_customStep: "reported a nr \<Longrightarrow> reported a (customStep n v f nr)"
  by (simp add: reported_def customStep_grows)

lemma reported_httpStep: "reported a nr \<Longrightarrow> reported a (httpStep ctx cl n v h nr)"
  by (simp add: reported_def httpStep_grows)

lemma reported_fold_customStep: "reported a nr \<Longrightarrow> reported a (fold (customStep n v) fs nr)"
  by (simp add: reported_def fold_customStep_grows)

lemma reported_fold_httpStep:
  "reported a nr \<Longrightarrow> reported a (fold (httpStep ctx cl n v) hs nr)"
  by (simp add: reported_def fold_httpStep_grows)

lemma fold_customStep_records:
  assumes "f \<in> set fs"
    and "f \<lparr>NodeContext.Node = Some n, NodeContext.Version = v\<rparr> = Some a"
  shows "reported a (fold (customStep n v) fs nr)"
  using assms(1)
proof (induction fs arbitrary: nr)
  case Nil
  then show ?case by simp
next
  case (Cons x fs)
  show ?case
  proof (cases "x = f")
    case True
    then show ?thesis
      using customStep_records [of f n v a nr] assms(2)
      by (simp add: reported_fold_customStep)
  next
    case False
    then show ?thesis using Cons by simp
  qed
qed

lemma httpStep_records:
  assumes "hookOutcome (h ctx \<lparr>NodeContext.Node = Some n, NodeContext.Version = v\<rparr> (Some cl))
             = Some a"
  shows "reported a (httpStep ctx cl n v h nr)"
proof (cases "snd (h ctx \<lparr>NodeContext.Node = Some n, NodeContext.Version = v\<rparr> (Some cl))")
  case None
  then have "fst (h ctx \<lparr>NodeContext.Node = Some n, NodeContext.Version = v\<rparr> (Some cl)) = Some a"
    using assms by (simp add: hookOutcome_def)
  then show ?thesis
    using mergeAnalysis_records [of "defaultCategory a" "hookBucket a" nr] None
    by (simp add: httpStep_def Let_def hookBucket_def reported_def)
next
  case (Some err)
  define m where "m = markFailure
                         \<lparr>NodeAnalysisResult.Category = CustomAnalysisCategory,
                          NodeAnalysisResult.Status = [],
                          NodeAnalysisResult.Reason = [],
                          NodeAnalysisResult.Reasons = [],
                          NodeAnalysisResult.Attributes = []\<rparr> [Error err]"
  have a: "a = failedCustom (Error err)"
    using assms Some by (simp add: hookOutcome_def)
  have c: "categoryOf m = CustomAnalysisCategory" "categoryOf a = CustomAnalysisCategory"
    by (simp_all add: m_def a categoryOf_def failedCustom_def CustomAnalysisCategory_def)
  have s: "NodeAnalysisResult.Status (defaultCategory m) = StatusFail"
    by (simp add: m_def)
  have r: "NodeAnalysisResult.Reasons m = filter (\<lambda>reason. reason \<noteq> []) [Error err]"
    by (simp add: m_def markFailure_def Let_def)
  have e: "httpStep ctx cl n v h nr = mergeAnalysis nr (defaultCategory m)"
    using Some by (simp add: httpStep_def Let_def m_def)
  have hb: "NodeAnalysisResult.Reasons (hookBucket a) = filter (\<lambda>reason. reason \<noteq> []) [Error err]"
    "NodeAnalysisResult.Attributes (hookBucket a) = []"
    by (simp_all add: a hookBucket_def failedCustom_def)
  have "grows (hookBucket a) (mergeAnalysis nr (defaultCategory m))
          (NodeAnalysisResult.Category (defaultCategory m))"
    by (rule mergeAnalysis_records [OF s]) (simp_all add: hb r)
  then show ?thesis
    by (simp add: reported_def c e)
qed

lemma fold_httpStep_records:
  assumes "h \<in> set hs"
    and "hookOutcome (h ctx \<lparr>NodeContext.Node = Some n, NodeContext.Version = v\<rparr> (Some cl))
           = Some a"
  shows "reported a (fold (httpStep ctx cl n v) hs nr)"
  using assms(1)
proof (induction hs arbitrary: nr)
  case Nil
  then show ?case by simp
next
  case (Cons x hs)
  show ?case
  proof (cases "x = h")
    case True
    then show ?thesis
      using httpStep_records [of h ctx n v cl a nr] assms(2)
      by (simp add: reported_fold_httpStep)
  next
    case False
    then show ?thesis using Cons by simp
  qed
qed

lemma runHooks_records:
  assumes "NodeResult.Node nr = Local (genericNode.Name n)"
  shows "hookFailuresRecorded lib g cfg v n (runHooks lib g cfg n v nr)"
proof -
  define r2 where "r2 = (if runCustom cfg then applyCustomValidators g nr n v else nr)"
  have rh: "runHooks lib g cfg n v nr
              = (if runHTTP cfg then applyHTTPValidators lib g r2 n v cfg else r2)"
    by (simp add: runHooks_def r2_def)
  have keep: "reported a r2 \<Longrightarrow> reported a (runHooks lib g cfg n v nr)" for a
    by (simp add: rh applyHTTPValidators_def Let_def reported_fold_httpStep)
  have n2: "NodeResult.Node r2 = Local (genericNode.Name n)"
    by (simp add: r2_def applyCustomValidators_def assms)
  have 1: "case f \<lparr>NodeContext.Node = Some n, NodeContext.Version = v\<rparr> of
              None \<Rightarrow> True
            | Some a \<Rightarrow> reported a (runHooks lib g cfg n v nr)"
    if c: "runCustom cfg"
      and f: "f \<in> set (getCustomValidators (customValidators g) (Local (genericNode.Name n)))"
    for f
  proof (cases "f \<lparr>NodeContext.Node = Some n, NodeContext.Version = v\<rparr>")
    case None
    then show ?thesis by simp
  next
    case (Some a)
    have "reported a r2"
      using fold_customStep_records [of f _ n v a nr] f Some c
      by (simp add: r2_def applyCustomValidators_def assms)
    then show ?thesis using Some keep by simp
  qed
  have 2: "case hookOutcome (h (timeoutContext cfg)
                                  \<lparr>NodeContext.Node = Some n, NodeContext.Version = v\<rparr>
                                  (Some (clientOf lib (httpOptions cfg)))) of
                None \<Rightarrow> True
              | Some a \<Rightarrow> reported a (runHooks lib g cfg n v nr)"
    if c: "runHTTP cfg"
      and h: "h \<in> set (getHTTPValidators (HTTPValidatorRegistry g) (Local (genericNode.Name n)))"
    for h
  proof (cases "hookOutcome (h (timeoutContext cfg)
                                  \<lparr>NodeContext.Node = Some n, NodeContext.Version = v\<rparr>
                                  (Some (clientOf lib (httpOptions cfg))))")
    case None
    then show ?thesis by simp
  next
    case (Some a)
    have e: "runHooks lib g cfg n v nr
        = fold (httpStep (timeoutContext cfg) (clientOf lib (httpOptions cfg)) n v)
            (getHTTPValidators (HTTPValidatorRegistry g) (Local (genericNode.Name n))) r2"
      using c by (simp add: rh applyHTTPValidators_def Let_def n2)
    show ?thesis
      using fold_httpStep_records [of h _ "timeoutContext cfg" n v
          "clientOf lib (httpOptions cfg)" a r2] h Some
      by (simp add: e)
  qed
  from 1 2 show ?thesis unfolding hookFailuresRecorded_def by blast
qed

section \<open>The result tree\<close>

lemma childAllows_or:
  "childAllows spec pau
     = (pau \<or> (case spec of None \<Rightarrow> False | Some sp \<Rightarrow> AllowUnknownChildren sp))"
  by (auto simp: childAllows_def split: option.splits)

lemma hookFailuresRecorded_Analyses:
  assumes "Analyses r' = Analyses r"
  shows "hookFailuresRecorded lib g cfg v n r' = hookFailuresRecorded lib g cfg v n r"
proof -
  have f: "reported a r' = reported a r" for a
    by (simp add: reported_def grows_def assms)
  show ?thesis
    unfolding hookFailuresRecorded_def f ..
qed

lemma grows_Analyses: "Analyses r' = Analyses r \<Longrightarrow> grows b r' c = grows b r c"
  by (simp add: grows_def)

lemma validateNodeRecursive_recorded:
  "recorded lib g cfg v spec ps pau n (validateNodeRecursive lib g n v cfg spec ps pau)"
proof (induction n arbitrary: spec ps pau)
  case (GenericNode name attrs children content)
  define n where "n = GenericNode name attrs children content"
  define r where "r = validateNode lib g n v cfg spec ps pau"
  define kids where "kids = map (\<lambda>c. validateNodeRecursive lib g c v cfg
                            (node (catalog cfg) (localName c)) spec (childAllows spec pau)) children"
  have e: "validateNodeRecursive lib g n v cfg spec ps pau
             = NodeResult (NodeResult.Node r) (NodeResult.VersionSupport r) (Analyses r) kids"
    by (simp add: n_def r_def kids_def Let_def validateNode_Node)
  have 1: "NodeResult.Node r = Local name"
    by (simp add: r_def validateNode_Node localName_def n_def)
  have 2: "grows (expectedBucket v spec ps pau n) r IABAnalysisCategory"
    using validateNode_grows [of n v spec ps pau lib g cfg]
    by (simp add: r_def checksBucket_expected)
  have 3: "hookFailuresRecorded lib g cfg v n r"
    unfolding r_def validateNode_eq
    by (rule runHooks_records) (simp add: localName_def)
  have 4: "list_all2
           (\<lambda>c rc. recorded lib g cfg v (Nodes (catalog cfg) (Local (genericNode.Name c)))
                      spec
                      (pau \<or> (case spec of None \<Rightarrow> False
                                   | Some sp \<Rightarrow> AllowUnknownChildren sp))
                      c rc)
           children kids"
    unfolding kids_def list_all2_map2
    by (rule list_all2_same [THEN iffD2])
       (use GenericNode.IH in \<open>simp add: node_def localName_def childAllows_or\<close>)
  have 5: "grows (expectedBucket v spec ps pau n) (NodeResult x y (Analyses r) k)
             IABAnalysisCategory" for x y k
    using 2 grows_Analyses [of "NodeResult x y (Analyses r) k" r] by simp
  have 6: "hookFailuresRecorded lib g cfg v n (NodeResult x y (Analyses r) k)" for x y k
    using 3 hookFailuresRecorded_Analyses [of "NodeResult x y (Analyses r) k" r] by simp
  have "recorded lib g cfg v spec ps pau (GenericNode name attrs children content)
          (NodeResult (NodeResult.Node r) (NodeResult.VersionSupport r) (Analyses r) kids)"
    using 1 4 5 6
    by (simp add: n_def del: validateNodeRecursive.simps)
  then show ?case
    using e by (simp only: n_def)
qed

lemma validateNodeRecursive_expected:
  assumes "\<not> runCustom cfg" "\<not> runHTTP cfg"
  shows "validateNodeRecursive lib g n v cfg spec ps pau
           = expectedResult (catalog cfg) v spec ps pau n"
proof (induction n arbitrary: spec ps pau)
  case (GenericNode name attrs children content)
  show ?case
    using GenericNode.IH assms
    by (simp add: Let_def validateNode_eq runHooks_off checksBucket_expected localName_def
        node_def childAllows_or)
qed

section \<open>The result of the root\<close>

lemma finishRoot_sel [simp]:
  "NodeResult.Node (finishRoot sp v r) = NodeResult.Node r"
  "NodeResult.Children (finishRoot sp v r) = NodeResult.Children r"
  by (simp_all add: finishRoot_def)

lemma finishRoot_map_of:
  "map_of (Analyses (finishRoot sp v r)) c
     = (if supports sp v \<or> c \<noteq> IABAnalysisCategory then map_of (Analyses r) c
        else Some (markFailure (snd (addAnalysis r IABAnalysisCategory))
                     [''Unsupported VAST version: '' @ v]))"
  by (simp add: finishRoot_def addAnalysis_def Let_def update_conv' split: option.splits)

lemma finishRoot_grows:
  assumes "grows b r c"
  shows "grows b (finishRoot sp v r) c"
proof (cases "supports sp v \<or> c \<noteq> IABAnalysisCategory")
  case True
  then show ?thesis
    using assms finishRoot_map_of [of sp v r c] by (simp add: grows_def)
next
  case False
  then obtain b' where b: "map_of (Analyses r) IABAnalysisCategory = Some b'"
    using assms by (auto simp: grows_def split: option.splits)
  then have "snd (addAnalysis r IABAnalysisCategory) = b'"
    by (simp add: addAnalysis_def)
  then show ?thesis
    using assms False b finishRoot_map_of [of sp v r c]
    by (auto simp: grows_def markFailure_def Let_def)
qed

lemma hookFailuresRecorded_mono:
  assumes "\<And>b c. grows b r c \<Longrightarrow> grows b r' c"
    and "hookFailuresRecorded lib g cfg v n r"
  shows "hookFailuresRecorded lib g cfg v n r'"
proof -
  have m: "reported a r \<Longrightarrow> reported a r'" for a
    by (simp add: reported_def assms(1))
  show ?thesis
    using assms(2) unfolding hookFailuresRecorded_def
    by (auto intro: m split: option.splits)
qed

lemma finishRoot_recorded:
  assumes "recorded lib g cfg v spec ps pau n r"
  shows "recorded lib g cfg v spec ps pau n (finishRoot sp v' r)"
proof (cases n)
  case (GenericNode name attrs children content)
  show ?thesis
    using assms hookFailuresRecorded_mono [of r "finishRoot sp v' r" lib g cfg v n]
    by (simp add: GenericNode finishRoot_grows)
qed

lemma finishRoot_rootBucket:
  assumes "grows (expectedBucket v (Some sp) None False n) r IABAnalysisCategory"
  shows "grows (rootBucket v sp n) (finishRoot sp v r) IABAnalysisCategory"
proof (cases "supports sp v")
  case True
  then show ?thesis
    using assms by (simp add: rootBucket_def finishRoot_def supports_def)
next
  case False
  obtain b' where b: "map_of (Analyses r) IABAnalysisCategory = Some b'"
    using assms by (auto simp: grows_def split: option.splits)
  then have "snd (addAnalysis r IABAnalysisCategory) = b'"
    by (simp add: addAnalysis_def)
  then show ?thesis
    using assms False b finishRoot_map_of [of sp v r IABAnalysisCategory]
    by (auto simp: rootBucket_def supports_def grows_def markFailure_def Let_def)
qed

lemma finishRoot_expected:
  "finishRoot sp v (expectedResult cat v (Some sp) None False n) = expectedRoot cat v sp n"
proof (cases n)
  case (GenericNode name attrs children content)
  have m: "markFailure (expectedBucket v (Some sp) None False n)
             [Error ErrUnsupportedVersion @ '': '' @ v]
           = (expectedBucket v (Some sp) None False n)
               \<lparr>NodeAnalysisResult.Status := StatusFail,
                NodeAnalysisResult.Reasons :=
                  NodeAnalysisResult.Reasons (expectedBucket v (Some sp) None False n)
                    @ [''Unsupported VAST version: '' @ v]\<rparr>"
    by (simp add: markFailure_def Let_def)
  show ?thesis
    unfolding GenericNode
    using m [unfolded GenericNode]
    by (simp add: finishRoot_def expectedRoot_def rootBucket_def supports_def addAnalysis_def
        storeAnalysis_def Let_def)
qed

section \<open>Call-level errors and recorded failures\<close>

lemma Validate_Inr:
  assumes "Validate lib g raw opts = Inr res"
  shows "\<exists>rootNode rootSpec.
           buildNodeTree (xml_Decode lib) raw = Inr rootNode
         \<and> Nodes (catalogInEffect g opts) ''VAST'' = Some rootSpec
         \<and> documentVersion (fst (xml_Decode lib raw)) = Some (ValidationResult.Version res)
         \<and> Root res = finishRoot rootSpec (ValidationResult.Version res)
                         (validateNodeRecursive lib g rootNode (ValidationResult.Version res)
                            (configInEffect g opts) (Some rootSpec) None False)"
proof -
  have ne: "\<not> callLevelError lib g raw opts"
    using Validate_Inl [of lib g raw opts] assms by auto
  then have r: "raw \<noteq> []"
    by (simp add: callLevelError_def)
  obtain rootNode where b: "buildNodeTree (xml_Decode lib) raw = Inr rootNode"
    using ne buildNodeTree_error [of "xml_Decode lib" raw]
    by (cases "buildNodeTree (xml_Decode lib) raw") (auto simp: callLevelError_def)
  have rs: "rootStart 0 (fst (xml_Decode lib raw)) None
              = Some (genericNode.Name rootNode, Attrs rootNode)"
    using buildNodeTree_root [OF b] .
  from ne rs have l: "localName rootNode = ''VAST''"
    and dv: "declaredVersion (Attrs rootNode) \<noteq> None"
    and c: "Nodes (catalogInEffect g opts) ''VAST'' \<noteq> None"
    by (simp_all add: callLevelError_def localName_def)
  from dv obtain vv where v: "attrValue rootNode ''version'' = Some vv" "TrimSpace vv \<noteq> []"
    and d: "declaredVersion (Attrs rootNode) = Some (TrimSpace vv)"
    by (auto simp: declaredVersion_def attrValue_def attrValueIn_find firstNamed_def
        split: option.splits if_splits)
  from c obtain rootSpec where s: "Nodes (catalogInEffect g opts) ''VAST'' = Some rootSpec"
    by auto
  then have s': "node (catalog (fold applyOption opts (defaultConfig g))) ''VAST'' = Some rootSpec"
    by (simp add: node_def config_in_effect)
  from Validate_result [OF r b l v s'] assms
  have "ValidationResult.Version res = TrimSpace vv"
    and "Root res = finishRoot rootSpec (TrimSpace vv)
                    (validateNodeRecursive lib g rootNode (TrimSpace vv)
                       (configInEffect g opts) (Some rootSpec) None False)"
    by (auto simp: fold_applyOption)
  then show ?thesis
    using b s d rs by (auto simp: documentVersion_def)
qed

text \<open>
  Claim C1. \<open>Validate\<close> returns an error, and no result, exactly under the conditions of
  \<open>callLevelError\<close>, which are read off the input, its tokens and the options: the input
  has no bytes or no element; the tokenizer reports an error or a closing tag has nothing
  to close; the root element is not \<open>VAST\<close>; its version attribute is absent or blank
  after trimming; the catalog in effect has no spec for \<open>VAST\<close>. The parser fails exactly
  on the malformed and the empty inputs. For every other input \<open>Validate\<close> returns a
  result. Its version is the declared version of the document. Its tree has a node for
  every node of the document, under the same name. Every node result records the
  failures of its node (\<open>recorded\<close>): the spec-compliance bucket has the attribute
  results, the reasons and the failed status that the checks of the node give, and every
  registered validator that runs and fails, by a failed result or by an error, leaves a
  failed bucket in its category with its reasons. The bucket of the root has the
  unsupported-version failure besides. When the hooks are disabled the tree is exactly
  the tree of the expected buckets.
\<close>

theorem validate_error_or_result:
  "((\<exists>e. Validate lib g raw opts = Inl e) \<longleftrightarrow> callLevelError lib g raw opts)
   \<and> ((\<exists>res. Validate lib g raw opts = Inr res) \<longleftrightarrow> \<not> callLevelError lib g raw opts)
   \<and> ((\<exists>e. buildNodeTree (xml_Decode lib) raw = Inl e) \<longleftrightarrow>
         closesUnopened 0 (fst (xml_Decode lib raw)) \<or> snd (xml_Decode lib raw) \<noteq> None
         \<or> \<not> list_ex isStart (fst (xml_Decode lib raw)))
   \<and> (\<forall>res. Validate lib g raw opts = Inr res \<longrightarrow>
         (\<exists>rootNode rootSpec.
             buildNodeTree (xml_Decode lib) raw = Inr rootNode
           \<and> Nodes (catalogInEffect g opts) ''VAST'' = Some rootSpec
           \<and> documentVersion (fst (xml_Decode lib raw)) = Some (ValidationResult.Version res)
           \<and> resultShape (Root res) = shapeOf rootNode
           \<and> recorded lib g (configInEffect g opts) (ValidationResult.Version res)
                (Some rootSpec) None False rootNode (Root res)
           \<and> grows (rootBucket (ValidationResult.Version res) rootSpec rootNode) (Root res)
                IABAnalysisCategory
           \<and> (DisableCustomValidators \<in> set opts \<longrightarrow>
                Root res = expectedRoot (catalogInEffect g opts) (ValidationResult.Version res)
                             rootSpec rootNode)))"
proof -
  have 1: "(\<exists>e. Validate lib g raw opts = Inl e) \<longleftrightarrow> callLevelError lib g raw opts"
    by (rule Validate_Inl)
  have 2: "(\<exists>res. Validate lib g raw opts = Inr res) \<longleftrightarrow> \<not> callLevelError lib g raw opts"
    using Validate_Inl [of lib g raw opts]
    by (cases "Validate lib g raw opts") auto
  have 3: "(\<exists>e. buildNodeTree (xml_Decode lib) raw = Inl e) \<longleftrightarrow>
         closesUnopened 0 (fst (xml_Decode lib raw)) \<or> snd (xml_Decode lib raw) \<noteq> None
         \<or> \<not> list_ex isStart (fst (xml_Decode lib raw))"
    by (rule buildNodeTree_error)
  have 4: "\<exists>rootNode rootSpec.
             buildNodeTree (xml_Decode lib) raw = Inr rootNode
           \<and> Nodes (catalogInEffect g opts) ''VAST'' = Some rootSpec
           \<and> documentVersion (fst (xml_Decode lib raw)) = Some (ValidationResult.Version res)
           \<and> resultShape (Root res) = shapeOf rootNode
           \<and> recorded lib g (configInEffect g opts) (ValidationResult.Version res)
                (Some rootSpec) None False rootNode (Root res)
           \<and> grows (rootBucket (ValidationResult.Version res) rootSpec rootNode) (Root res)
                IABAnalysisCategory
           \<and> (DisableCustomValidators \<in> set opts \<longrightarrow>
                Root res = expectedRoot (catalogInEffect g opts) (ValidationResult.Version res)
                             rootSpec rootNode)"
    if v: "Validate lib g raw opts = Inr res" for res
  proof -
    define ver where "ver = ValidationResult.Version res"
    define cfg where "cfg = configInEffect g opts"
    from Validate_Inr [OF v] obtain rootNode rootSpec
      where b: "buildNodeTree (xml_Decode lib) raw = Inr rootNode"
        and s: "Nodes (catalogInEffect g opts) ''VAST'' = Some rootSpec"
        and d: "documentVersion (fst (xml_Decode lib raw)) = Some ver"
        and r: "Root res = finishRoot rootSpec ver
                  (validateNodeRecursive lib g rootNode ver cfg (Some rootSpec) None False)"
      unfolding ver_def cfg_def by blast
    have sh: "resultShape (Root res) = shapeOf rootNode"
      by (simp only: r finishRoot_shape validateNodeRecursive_shape)
    have rec: "recorded lib g cfg ver (Some rootSpec) None False rootNode (Root res)"
      unfolding r by (rule finishRoot_recorded) (rule validateNodeRecursive_recorded)
    have gr: "grows (rootBucket ver rootSpec rootNode) (Root res) IABAnalysisCategory"
      unfolding r
      by (rule finishRoot_rootBucket)
        (simp only: checksBucket_expected [symmetric] validateNodeRecursive_grows)
    have off: "Root res = expectedRoot (catalogInEffect g opts) ver rootSpec rootNode"
      if "DisableCustomValidators \<in> set opts"
    proof -
      have h: "\<not> runCustom cfg" "\<not> runHTTP cfg"
        using that by (simp_all add: cfg_def configInEffect_def)
      have c: "catalog cfg = catalogInEffect g opts"
        by (simp add: cfg_def configInEffect_def)
      show ?thesis
        unfolding r validateNodeRecursive_expected [OF h] c by (rule finishRoot_expected)
    qed
    from b s d sh rec gr off show ?thesis
      unfolding ver_def cfg_def by blast
  qed
  from 1 2 3 4 show ?thesis by blast
qed

theorem validate_error_or_result_witness:
  "(\<exists>res rc. Validate sampleLib hookedGlobals docSupported [DisableHTTPValidators] = Inr res
       \<and> ValidationResult.Version res = ''4.2''
       \<and> NodeResult.Children (Root res) = [rc]
       \<and> grows (hookBucket (failedCustom ''media file URL failed custom check'')) rc
            CustomAnalysisCategory)
   \<and> (\<exists>res rc. Validate sampleLib probedGlobals docSupported [] = Inr res
       \<and> NodeResult.Children (Root res) = [rc]
       \<and> grows (hookBucket (failedCustom ''media file URL is empty'')) rc
            CustomAnalysisCategory)
   \<and> (\<exists>res. Validate sampleLib sampleGlobals docVersion5 [DisableCustomValidators] = Inr res
       \<and> ValidationResult.Version res = ''5.0''
       \<and> Root res = expectedRoot sampleCatalog ''5.0'' vastSpec
                      (elem ''VAST'' [(''version'', ''5.0'')] [elem ''Ad'' [(''id'', ''1'')] []]))
   \<and> NodeAnalysisResult.Reasons
        (rootBucket ''5.0'' vastSpec
           (elem ''VAST'' [(''version'', ''5.0'')] [elem ''Ad'' [(''id'', ''1'')] []]))
       = [''node VAST is not supported in VAST 5.0'',
          ''attribute version is not supported in VAST 5.0'',
          ''Unsupported VAST version: 5.0'']
   \<and> callLevelError sampleLib sampleGlobals docOtherRoot []
   \<and> (\<exists>e. Validate sampleLib sampleGlobals docOtherRoot [] = Inl e)"
proof -
  have t: "TrimSpace ''4.2'' = ''4.2''" "TrimSpace ''5.0'' = ''5.0''"
    by (simp_all add: TrimSpace_def isSpaceRune_def spaceRunes_def)
  have d4: "xml_Decode sampleLib docSupported
              = ([startTag ''VAST'' [(''version'', ''4.2'')], startTag ''Ad'' [(''id'', ''1'')],
                  endTag ''Ad'', endTag ''VAST''], None)"
    by (simp add: sampleLib_def sampleDecode_def)
  have d5: "xml_Decode sampleLib docVersion5
              = ([startTag ''VAST'' [(''version'', ''5.0'')], startTag ''Ad'' [(''id'', ''1'')],
                  endTag ''Ad'', endTag ''VAST''], None)"
    by (simp add: sampleLib_def sampleDecode_def docVersion5_def docSupported_def)
  have d0: "xml_Decode sampleLib docOtherRoot = ([startTag ''Foo'' [], endTag ''Foo''], None)"
    by (simp add: sampleLib_def sampleDecode_def docVersion5_def docSupported_def
        docOtherRoot_def)
  have v4: "documentVersion (fst (xml_Decode sampleLib docSupported)) = Some ''4.2''"
    by (simp add: d4 documentVersion_def declaredVersion_def firstNamed_def startTag_def
        endTag_def t)
  have v5: "documentVersion (fst (xml_Decode sampleLib docVersion5)) = Some ''5.0''"
    by (simp add: d5 documentVersion_def declaredVersion_def firstNamed_def startTag_def
        endTag_def t)
  have b4: "buildNodeTree (xml_Decode sampleLib) docSupported
              = Inr (elem ''VAST'' [(''version'', ''4.2'')] [elem ''Ad'' [(''id'', ''1'')] []])"
    by (simp add: d4 buildNodeTree_def startTag_def endTag_def rootOf_def appendChild_def
        elem_def)
  have b5: "buildNodeTree (xml_Decode sampleLib) docVersion5
              = Inr (elem ''VAST'' [(''version'', ''5.0'')] [elem ''Ad'' [(''id'', ''1'')] []])"
    by (simp add: d5 buildNodeTree_def startTag_def endTag_def rootOf_def appendChild_def
        elem_def)
  have c4: "Nodes (catalogInEffect hookedGlobals [DisableHTTPValidators]) ''VAST'' = Some vastSpec"
    by (simp add: catalogInEffect_def hookedGlobals_def sampleGlobals_def sampleCatalog_def)
  have c5: "catalogInEffect sampleGlobals [DisableCustomValidators] = sampleCatalog"
    by (simp add: catalogInEffect_def sampleGlobals_def)
  have s5: "Nodes sampleCatalog ''VAST'' = Some vastSpec"
    by (simp add: sampleCatalog_def)
  have ne: "docSupported \<noteq> []" "docVersion5 \<noteq> []"
    by (simp_all add: docSupported_def docVersion5_def)
  have n4: "\<not> callLevelError sampleLib hookedGlobals docSupported [DisableHTTPValidators]"
    by (simp add: callLevelError_def d4 ne c4 declaredVersion_def firstNamed_def startTag_def
        endTag_def t)
  have n5: "\<not> callLevelError sampleLib sampleGlobals docVersion5 [DisableCustomValidators]"
    by (simp add: callLevelError_def d5 ne c5 s5 declaredVersion_def firstNamed_def startTag_def
        endTag_def t)
  have e0: "callLevelError sampleLib sampleGlobals docOtherRoot []"
    by (simp add: callLevelError_def d0 startTag_def endTag_def)
  note th4 = validate_error_or_result [of sampleLib hookedGlobals docSupported
      "[DisableHTTPValidators]"]
  note th5 = validate_error_or_result [of sampleLib sampleGlobals docVersion5
      "[DisableCustomValidators]"]
  note th0 = validate_error_or_result [of sampleLib sampleGlobals docOtherRoot "[]"]
  from th4 n4 obtain res4
    where r4: "Validate sampleLib hookedGlobals docSupported [DisableHTTPValidators] = Inr res4"
    by blast
  with th4 b4 c4 v4
  have ver4: "ValidationResult.Version res4 = ''4.2''"
    and rec4: "recorded sampleLib hookedGlobals
                 (configInEffect hookedGlobals [DisableHTTPValidators]) ''4.2'' (Some vastSpec)
                 None False (elem ''VAST'' [(''version'', ''4.2'')] [elem ''Ad'' [(''id'', ''1'')] []])
                 (Root res4)"
    by auto
  from rec4 obtain rc where k: "NodeResult.Children (Root res4) = [rc]"
    and h: "hookFailuresRecorded sampleLib hookedGlobals
              (configInEffect hookedGlobals [DisableHTTPValidators]) ''4.2''
              (elem ''Ad'' [(''id'', ''1'')] []) rc"
    by (auto simp: elem_def list_all2_Cons1)
  have reg: "getCustomValidators (customValidators hookedGlobals) ''Ad'' = [failingHook]"
    by (simp add: hookedGlobals_def sampleGlobals_def getCustomValidators_def
        RegisterCustomValidator_def Let_def)
  have g4: "grows (hookBucket (failedCustom ''media file URL failed custom check'')) rc
              CustomAnalysisCategory"
    using h
    by (simp add: hookFailuresRecorded_def configInEffect_def elem_def reg failingHook_def
        reported_def failedCustom_def categoryOf_def CustomAnalysisCategory_def)
  have c6: "Nodes (catalogInEffect probedGlobals []) ''VAST'' = Some vastSpec"
    by (simp add: catalogInEffect_def probedGlobals_def sampleGlobals_def sampleCatalog_def)
  have n6: "\<not> callLevelError sampleLib probedGlobals docSupported []"
    by (simp add: callLevelError_def d4 ne c6 declaredVersion_def firstNamed_def startTag_def
        endTag_def t)
  note th6 = validate_error_or_result [of sampleLib probedGlobals docSupported "[]"]
  from th6 n6 obtain res6
    where r6: "Validate sampleLib probedGlobals docSupported [] = Inr res6"
    by blast
  with th6 b4 c6 v4
  have rec6: "recorded sampleLib probedGlobals (configInEffect probedGlobals []) ''4.2''
                 (Some vastSpec) None False
                 (elem ''VAST'' [(''version'', ''4.2'')] [elem ''Ad'' [(''id'', ''1'')] []])
                 (Root res6)"
    by auto
  from rec6 obtain rc6 where k6: "NodeResult.Children (Root res6) = [rc6]"
    and h6: "hookFailuresRecorded sampleLib probedGlobals (configInEffect probedGlobals [])
               ''4.2'' (elem ''Ad'' [(''id'', ''1'')] []) rc6"
    by (auto simp: elem_def list_all2_Cons1)
  have reg6: "getHTTPValidators (HTTPValidatorRegistry probedGlobals) ''Ad''
                = [mediaFileHook sampleLib]"
    by (simp add: probedGlobals_def sampleGlobals_def getHTTPValidators_def
        RegisterHTTPValidator_def Let_def)
  have out6: "hookOutcome (mediaFileHook sampleLib ctx
                \<lparr>NodeContext.Node = Some (GenericNode \<lparr>Space = [], Local = ''Ad''\<rparr> attrs [] []),
                 NodeContext.Version = ''4.2''\<rparr> client)
              = Some (failedCustom ''media file URL is empty'')" for ctx attrs client
    by (simp add: hookOutcome_def mediaFileHook_def mediaFileHTTPValidator_def Text_def
        TrimSpace_def)
  have g6: "grows (hookBucket (failedCustom ''media file URL is empty'')) rc6
              CustomAnalysisCategory"
    using h6
    by (simp add: hookFailuresRecorded_def configInEffect_def elem_def reg6 out6
        reported_def failedCustom_def categoryOf_def CustomAnalysisCategory_def)
  from th5 n5 obtain res5
    where r5: "Validate sampleLib sampleGlobals docVersion5 [DisableCustomValidators] = Inr res5"
    by blast
  with th5 b5 s5 v5
  have ver5: "ValidationResult.Version res5 = ''5.0''"
    and root5: "Root res5 = expectedRoot sampleCatalog ''5.0'' vastSpec
                  (elem ''VAST'' [(''version'', ''5.0'')] [elem ''Ad'' [(''id'', ''1'')] []])"
    by (auto simp: c5)
  have rs: "NodeAnalysisResult.Reasons
        (rootBucket ''5.0'' vastSpec
           (elem ''VAST'' [(''version'', ''5.0'')] [elem ''Ad'' [(''id'', ''1'')] []]))
       = [''node VAST is not supported in VAST 5.0'',
          ''attribute version is not supported in VAST 5.0'',
          ''Unsupported VAST version: 5.0'']"
    by (simp add: rootBucket_def expectedBucket_def structuralReasons_def expectedAttributes_def
        attributeResult_def missingRequired_def presentNames_def vastSpec_def attrSpec_def
        allSupportedVersions_def attributeSupports_def elem_def t)
  from th0 e0 obtain e where "Validate sampleLib sampleGlobals docOtherRoot [] = Inl e"
    by blast
  with r4 ver4 k g4 r6 k6 g6 r5 ver5 root5 rs e0 show ?thesis
    by blast
qed

section \<open>Summaries of a validated document\<close>


end
